theory Spec2Isabelle
  imports Main
begin

section \<open>The server configuration loader (src/server/config.js)\<close>

text \<open>
  The loader reads \<^verbatim>\<open>process.env\<close> once, validates each variable and builds one frozen
  configuration object. Every \<^verbatim>\<open>throw\<close> of the source is a value of \<open>error\<close>, returned
  as \<open>Inl\<close>; a function that returns normally yields \<open>Inr\<close>.

  JavaScript strings are modelled as \<open>string\<close>: a character stands for one code unit in
  the range 0 to 255, which covers every literal of the source.
\<close>

subsection \<open>Strings\<close>

text \<open>
  The code units that \<^verbatim>\<open>String.prototype.trim\<close> and \<^verbatim>\<open>parseInt\<close> skip: the ECMAScript
  WhiteSpace and LineTerminator code points below 256 (TAB, LF, VT, FF, CR, SP, NBSP).
\<close>

definition isWhiteSpace :: "char \<Rightarrow> bool" where
  "isWhiteSpace c =
     (c = CHR 0x09 \<or> c = CHR 0x0A \<or> c = CHR 0x0B \<or> c = CHR 0x0C \<or> c = CHR 0x0D
      \<or> c = CHR 0x20 \<or> c = CHR 0xA0)"

definition trimStart :: "string \<Rightarrow> string" where
  "trimStart s = dropWhile isWhiteSpace s"

definition trim :: "string \<Rightarrow> string" where
  "trim s = rev (dropWhile isWhiteSpace (rev (dropWhile isWhiteSpace s)))"

definition startsWith :: "string \<Rightarrow> string \<Rightarrow> bool" where
  \<comment> \<open>\<^verbatim>\<open>s.startsWith(p)\<close>\<close>
  "startsWith s p = (take (length p) s = p)"

definition whitespaceOnly :: "string \<Rightarrow> bool" where
  "whitespaceOnly s = list_all isWhiteSpace s"

subsection \<open>The environment and the errors\<close>

text \<open>
  \<^verbatim>\<open>process.env\<close> maps a name to a value. Node stores strings there, but the source also
  guards against \<^verbatim>\<open>undefined\<close> and \<^verbatim>\<open>null\<close> values of a present key, so a value is one
  of the three.
\<close>

datatype jsvalue = JUndefined | JNull | JStr string

type_synonym environment = "string \<rightharpoonup> jsvalue"

datatype error =
    EnvRequired string            \<comment> \<open>Environment variable KEY is required\<close>
  | EnvEmpty string               \<comment> \<open>Environment variable KEY cannot be empty\<close>
  | NotRelative string            \<comment> \<open>KEY must be a relative path inside the repository\<close>
  | Traversal string              \<comment> \<open>KEY must not traverse outside of the repository\<close>
  | InvalidInteger string         \<comment> \<open>KEY must be a valid integer\<close>
  | ZeroNotAllowed string         \<comment> \<open>KEY cannot be zero\<close>
  | BelowMin string int           \<comment> \<open>KEY must be >= min\<close>
  | AboveMax string int           \<comment> \<open>KEY must be <= max\<close>
  | ProtocolNotAllowed string "string list"
                                  \<comment> \<open>KEY must use one of the following protocols: ...\<close>
  | InvalidUrl string             \<comment> \<open>KEY must be a valid absolute URL or start with '/'\<close>
  | TypeError                     \<comment> \<open>a TypeError of the runtime, as \<^verbatim>\<open>new URL\<close> throws\<close>

subsection \<open>readEnv\<close>

record readOptions =
  required :: bool
  defaultValue :: "string option"
  allowEmpty :: bool

definition readDefaults :: readOptions where
  \<comment> \<open>the defaults of the destructured parameter\<close>
  "readDefaults = \<lparr>required = False, defaultValue = None, allowEmpty = False\<rparr>"

text \<open>
  \<^verbatim>\<open>process.env[key]\<close> is a property read: for a name that is not set it goes on to
  \<^verbatim>\<open>Object.prototype\<close>. That object has twelve properties in Node, the accessor
  \<^verbatim>\<open>__proto__\<close> and eleven functions; a read of \<^verbatim>\<open>__proto__\<close> yields the prototype itself, a
  read of another one the function, and a read of any other name \<^verbatim>\<open>undefined\<close>. The only
  things \<^verbatim>\<open>readEnv\<close> does with the value read are the comparison with \<^verbatim>\<open>undefined\<close> and
  \<^verbatim>\<open>null\<close> and the conversion by \<^verbatim>\<open>String\<close>, so an inherited property is read here as the
  string that \<^verbatim>\<open>String\<close> gives for it.
\<close>

definition nativeFunction :: "string \<Rightarrow> string" where
  \<comment> \<open>\<^verbatim>\<open>String(f)\<close> for a built-in function of that name\<close>
  "nativeFunction fname = ''function '' @ fname @ ''() { [native code] }''"

definition objectPrototype :: "string \<rightharpoonup> string" where
  "objectPrototype =
     map_of
       [(''constructor'', nativeFunction ''Object''),
        (''__defineGetter__'', nativeFunction ''__defineGetter__''),
        (''__defineSetter__'', nativeFunction ''__defineSetter__''),
        (''hasOwnProperty'', nativeFunction ''hasOwnProperty''),
        (''__lookupGetter__'', nativeFunction ''__lookupGetter__''),
        (''__lookupSetter__'', nativeFunction ''__lookupSetter__''),
        (''isPrototypeOf'', nativeFunction ''isPrototypeOf''),
        (''propertyIsEnumerable'', nativeFunction ''propertyIsEnumerable''),
        (''toString'', nativeFunction ''toString''),
        (''valueOf'', nativeFunction ''valueOf''),
        (''__proto__'', ''[object Object]''),
        (''toLocaleString'', nativeFunction ''toLocaleString'')]"

definition lookupEnv :: "environment \<Rightarrow> string \<Rightarrow> jsvalue" where
  \<comment> \<open>\<^verbatim>\<open>process.env[key]\<close>\<close>
  "lookupEnv env key =
     (case env key of
        Some v \<Rightarrow> v
      | None \<Rightarrow> (case objectPrototype key of Some shown \<Rightarrow> JStr shown | None \<Rightarrow> JUndefined))"

text \<open>The result \<open>None\<close> is \<^verbatim>\<open>undefined\<close>.\<close>

definition readEnv :: "environment \<Rightarrow> string \<Rightarrow> readOptions \<Rightarrow> error + string option" where
  "readEnv env key opts =
     (case lookupEnv env key of
        JStr raw \<Rightarrow>
          (let v = trim raw in
           if \<not> allowEmpty opts \<and> length v = 0 then
             (if defaultValue opts \<noteq> None then Inr (defaultValue opts)
              else if required opts then Inl (EnvEmpty key)
              else Inr None)
           else Inr (Some v))
      | _ \<Rightarrow>
          (if defaultValue opts \<noteq> None then Inr (defaultValue opts)
           else if required opts then Inl (EnvRequired key)
           else Inr None))"

text \<open>
  The default/required logic in the words of the specification: return the default if
  one is provided, else fail if the variable is required, else return "absent".
\<close>

definition resolveMissing :: "readOptions \<Rightarrow> error \<Rightarrow> error + string option" where
  "resolveMissing opts err =
     (case defaultValue opts of
        Some d \<Rightarrow> Inr (Some d)
      | None \<Rightarrow> if required opts then Inl err else Inr None)"

definition isAbsent :: "environment \<Rightarrow> string \<Rightarrow> bool" where
  \<comment> \<open>\<^verbatim>\<open>process.env[key]\<close> is \<^verbatim>\<open>undefined\<close> or \<^verbatim>\<open>null\<close>: the test of the source\<close>
  "isAbsent env key = (case lookupEnv env key of JStr raw \<Rightarrow> False | _ \<Rightarrow> True)"

definition trimmedValue :: "environment \<Rightarrow> string \<Rightarrow> string" where
  "trimmedValue env key = (case lookupEnv env key of JStr raw \<Rightarrow> trim raw | _ \<Rightarrow> [])"

subsection \<open>Paths: the POSIX flavour of Node's path module\<close>

text \<open>
  \<^verbatim>\<open>path.isAbsolute\<close>, \<^verbatim>\<open>path.normalize\<close> and \<^verbatim>\<open>path.join\<close> belong to the Node runtime, not
  to the repository. They are modelled after \<^verbatim>\<open>path.posix\<close>: \<^verbatim>\<open>normalizeString\<close> walks the
  segments between slashes, drops empty and \<^verbatim>\<open>.\<close> segments, and lets a \<^verbatim>\<open>..\<close> segment
  remove the segment before it, unless there is none or it is \<^verbatim>\<open>..\<close> itself; then \<^verbatim>\<open>..\<close> is
  kept when the path is relative and dropped when it is absolute.
\<close>

definition isAbsolute :: "string \<Rightarrow> bool" where
  "isAbsolute p = (case p of [] \<Rightarrow> False | c # cs \<Rightarrow> c = CHR ''/'')"

fun splitSlash :: "string \<Rightarrow> string list" where
  \<comment> \<open>the segments between slashes, empty ones included\<close>
  "splitSlash [] = [[]]"
| "splitSlash (c # cs) =
     (if c = CHR ''/'' then [] # splitSlash cs
      else (case splitSlash cs of seg # segs \<Rightarrow> (c # seg) # segs | [] \<Rightarrow> [[c]]))"

fun joinSlash :: "string list \<Rightarrow> string" where
  "joinSlash [] = []"
| "joinSlash [seg] = seg"
| "joinSlash (seg # segs) = seg @ CHR ''/'' # joinSlash segs"

definition normalizeStep :: "bool \<Rightarrow> string list \<Rightarrow> string \<Rightarrow> string list" where
  \<comment> \<open>one segment of \<^verbatim>\<open>normalizeString\<close>; \<open>res\<close> holds the segments kept so far\<close>
  "normalizeStep allowAboveRoot res seg =
     (if seg = [] \<or> seg = ''.'' then res
      else if seg = ''..'' then
        (if res \<noteq> [] \<and> last res \<noteq> ''..'' then butlast res
         else if allowAboveRoot then res @ [''..'']
         else res)
      else res @ [seg])"

definition normalizeString :: "string \<Rightarrow> bool \<Rightarrow> string" where
  "normalizeString p allowAboveRoot =
     joinSlash (foldl (normalizeStep allowAboveRoot) [] (splitSlash p))"

definition normalizePath :: "string \<Rightarrow> string" where
  "normalizePath p =
     (if p = [] then ''.''
      else
        let trailingSeparator = (last p = CHR ''/'');
            q = normalizeString p (\<not> isAbsolute p)
        in if q = [] then
             (if isAbsolute p then ''/'' else if trailingSeparator then ''./'' else ''.'')
           else
             (let q' = (if trailingSeparator then q @ ''/'' else q)
              in if isAbsolute p then CHR ''/'' # q' else q'))"

definition joinPath :: "string list \<Rightarrow> string" where
  \<comment> \<open>\<^verbatim>\<open>path.join(...args)\<close>: the non-empty arguments, joined by slashes and normalised\<close>
  "joinPath args =
     (case filter (\<lambda>a. a \<noteq> []) args of
        [] \<Rightarrow> ''.''
      | as \<Rightarrow> normalizePath (joinSlash as))"

subsection \<open>ensureRelativePath\<close>

definition ensureRelativePath :: "string \<Rightarrow> string \<Rightarrow> error + string" where
  "ensureRelativePath v key =
     (if isAbsolute v then Inl (NotRelative key)
      else
        let normalised = normalizePath v
        in if startsWith normalised ''..'' then Inl (Traversal key)
           else Inr normalised)"

subsection \<open>Numbers\<close>

text \<open>
  A JavaScript Number that \<^verbatim>\<open>parseInt\<close> can return: not-a-number, an infinity, or an
  integer-valued double (\<open>-0\<close> is \<open>Num 0\<close>: the source only compares it and prints it,
  and both treat it as \<open>0\<close>). An integer of magnitude below \<open>2^53\<close> is a double as it is;
  a larger one is rounded to 53 significant bits, ties to even, and to an infinity from
  \<open>2^1024 - 2^970\<close> on.
\<close>

datatype jsnumber = NaN | PosInfinity | NegInfinity | Num int

fun bitLength :: "nat \<Rightarrow> nat" where
  "bitLength n = (if n = 0 then 0 else Suc (bitLength (n div 2)))"

declare bitLength.simps [simp del]

definition roundToDouble :: "nat \<Rightarrow> nat option" where
  \<comment> \<open>\<open>None\<close>: the magnitude rounds to infinity\<close>
  "roundToDouble m =
     (if m < 2 ^ 53 then Some m
      else
        let e = bitLength m - 53;
            q = m div 2 ^ e;
            r = m mod 2 ^ e;
            q' = (if 2 ^ e < 2 * r \<or> (2 * r = 2 ^ e \<and> odd q) then q + 1 else q)
        in if 2 ^ 1024 \<le> q' * 2 ^ e then None else Some (q' * 2 ^ e))"

definition toNumber :: "int \<Rightarrow> jsnumber" where
  "toNumber i =
     (case roundToDouble (nat \<bar>i\<bar>) of
        None \<Rightarrow> if i < 0 then NegInfinity else PosInfinity
      | Some m \<Rightarrow> Num (if i < 0 then - int m else int m))"

definition isDigit :: "char \<Rightarrow> bool" where
  "isDigit c = (c \<in> set ''0123456789'')"

definition digitValue :: "char \<Rightarrow> int" where
  "digitValue c = int (of_char c) - 48"

definition mathInt :: "string \<Rightarrow> int" where
  \<comment> \<open>the integer that a string of decimal digits denotes\<close>
  "mathInt z = foldl (\<lambda>a c. 10 * a + digitValue c) 0 z"

text \<open>
  \<^verbatim>\<open>Number.parseInt(value, 10)\<close>: skip leading white space, read an optional sign, take
  the longest run of decimal digits that follows and ignore the rest of the string; no
  digit at all gives \<^verbatim>\<open>NaN\<close>.
\<close>

definition parseInt :: "string \<Rightarrow> jsnumber" where
  "parseInt inputString =
     (let s = trimStart inputString;
          sign = (case s of c # cs \<Rightarrow> if c = CHR ''-'' then - 1 else 1 | [] \<Rightarrow> (1::int));
          s' = (case s of c # cs \<Rightarrow> if c = CHR ''+'' \<or> c = CHR ''-'' then cs else s | [] \<Rightarrow> s);
          z = takeWhile isDigit s'
      in if z = [] then NaN else toNumber (sign * mathInt z))"

definition isFinite :: "jsnumber \<Rightarrow> bool" where
  "isFinite x = (case x of Num n \<Rightarrow> True | _ \<Rightarrow> False)"

subsection \<open>parseInteger\<close>

record intOptions =
  minimum :: "int option"
  maximum :: "int option"
  allowZero :: bool

definition intDefaults :: intOptions where
  "intDefaults = \<lparr>minimum = None, maximum = None, allowZero = True\<rparr>"

definition parseInteger :: "string \<Rightarrow> string \<Rightarrow> intOptions \<Rightarrow> error + int" where
  "parseInteger v key opts =
     (case parseInt v of
        Num parsed \<Rightarrow>
          if \<not> allowZero opts \<and> parsed = 0 then Inl (ZeroNotAllowed key)
          else
            let checkMax =
                  (case maximum opts of
                     Some mx \<Rightarrow> if mx < parsed then Inl (AboveMax key mx) else Inr parsed
                   | None \<Rightarrow> Inr parsed)
            in (case minimum opts of
                  Some mn \<Rightarrow> if parsed < mn then Inl (BelowMin key mn) else checkMax
                | None \<Rightarrow> checkMax)
      | _ \<Rightarrow> Inl (InvalidInteger key))"

subsection \<open>Numbers as strings\<close>

text \<open>
  \<^verbatim>\<open>String(n)\<close> and a template literal print a Number by \<^verbatim>\<open>Number::toString\<close>: the
  digits of the shortest decimal \<open>s * 10^(n - k)\<close>, \<open>s\<close> of \<open>k\<close> digits, that rounds to the
  Number (the closest one to it, an even \<open>s\<close> on a tie), followed by zeros up to \<open>n\<close>
  digits, and in exponent notation from \<open>n = 22\<close> digits on. An integer below \<open>2^53\<close> is
  printed digit for digit.
\<close>

definition digitChar :: "nat \<Rightarrow> char" where
  \<comment> \<open>the digit of a value below ten\<close>
  "digitChar d = ''0123456789'' ! d"

fun natDigits :: "nat \<Rightarrow> string" where
  "natDigits n = (if n < 10 then [digitChar n] else natDigits (n div 10) @ [digitChar (n mod 10)])"

declare natDigits.simps [simp del]

definition shortestAt :: "nat \<Rightarrow> nat \<Rightarrow> (nat \<times> nat) list" where
  \<comment> \<open>the pairs \<open>(s, n)\<close> with \<open>s\<close> of \<open>k\<close> digits and \<open>s * 10^(n - k)\<close> rounding to \<open>x\<close>\<close>
  "shortestAt x k =
     (let d = length (natDigits x)
      in concat (map (\<lambda>n.
           let lo = x div 10 ^ (n - k)
           in map (\<lambda>s. (s, n))
                (filter (\<lambda>s. 10 ^ (k - 1) \<le> s \<and> s < 10 ^ k \<and>
                             roundToDouble (s * 10 ^ (n - k)) = Some x) [lo, lo + 1]))
         [d, d + 1]))"

definition distanceTo :: "nat \<Rightarrow> nat \<Rightarrow> nat \<times> nat \<Rightarrow> nat" where
  "distanceTo x k sn = nat \<bar>int (fst sn * 10 ^ (snd sn - k)) - int x\<bar>"

definition closer :: "nat \<Rightarrow> nat \<Rightarrow> nat \<times> nat \<Rightarrow> nat \<times> nat \<Rightarrow> nat \<times> nat" where
  \<comment> \<open>the candidate nearer to \<open>x\<close>, the even one on a tie\<close>
  "closer x k best c =
     (if distanceTo x k c < distanceTo x k best
         \<or> (distanceTo x k c = distanceTo x k best \<and> even (fst c) \<and> odd (fst best))
      then c else best)"

definition shortestDigits :: "nat \<Rightarrow> nat \<times> nat \<times> nat" where
  \<comment> \<open>\<open>(s, k, n)\<close> for a double \<open>x\<close> of at least \<open>2^53\<close>, which 17 digits always denote\<close>
  "shortestDigits x =
     (case filter (\<lambda>k. shortestAt x k \<noteq> []) [1 ..< 18] of
        k # ks \<Rightarrow>
          (case shortestAt x k of
             c # cs \<Rightarrow> (case foldl (closer x k) c cs of (s, n) \<Rightarrow> (s, k, n))
           | [] \<Rightarrow> (x, length (natDigits x), length (natDigits x)))
      | [] \<Rightarrow> (x, length (natDigits x), length (natDigits x)))"

definition natToString :: "nat \<Rightarrow> string" where
  "natToString x =
     (if x < 2 ^ 53 then natDigits x
      else
        case shortestDigits x of (s, k, n) \<Rightarrow>
          if n \<le> 21 then natDigits s @ replicate (n - k) CHR ''0''
          else if k = 1 then natDigits s @ ''e+'' @ natDigits (n - 1)
          else take 1 (natDigits s) @ ''.'' @ drop 1 (natDigits s) @ ''e+'' @ natDigits (n - 1))"

definition numberToString :: "int \<Rightarrow> string" where
  "numberToString i = (if i < 0 then CHR ''-'' # natToString (nat (- i)) else natToString (nat i))"

subsection \<open>URLs: the scheme states of the URL parser\<close>

text \<open>
  \<^verbatim>\<open>new URL(input)\<close> runs the URL parser of the runtime without a base URL. The parser
  strips leading and trailing C0 control characters and spaces, removes tabs and
  newlines, and reads the scheme: a letter, then letters, digits, \<^verbatim>\<open>+\<close>, \<^verbatim>\<open>-\<close> and \<^verbatim>\<open>.\<close> up
  to a colon, in lower case. An input without a scheme fails, since there is no base.
  What follows the colon (authority, path, query, fragment) is parsed and serialised by
  the runtime: that part is the parameter \<open>tail\<close>, which maps the scheme and the rest of
  the input to the serialisation after \<^verbatim>\<open>scheme:\<close>, or to \<open>None\<close> when parsing fails.
\<close>

record url =
  protocol :: string
  href :: string

type_synonym urlTail = "string \<Rightarrow> string \<Rightarrow> string option"

definition isC0OrSpace :: "char \<Rightarrow> bool" where
  "isC0OrSpace c = ((of_char c :: nat) \<le> 32)"

definition isTabOrNewline :: "char \<Rightarrow> bool" where
  "isTabOrNewline c = (c = CHR 0x09 \<or> c = CHR 0x0A \<or> c = CHR 0x0D)"

definition isAsciiUpper :: "char \<Rightarrow> bool" where
  "isAsciiUpper c = (65 \<le> (of_char c :: nat) \<and> (of_char c :: nat) \<le> 90)"

definition isAsciiLower :: "char \<Rightarrow> bool" where
  "isAsciiLower c = (97 \<le> (of_char c :: nat) \<and> (of_char c :: nat) \<le> 122)"

definition isAsciiAlpha :: "char \<Rightarrow> bool" where
  "isAsciiAlpha c = (isAsciiUpper c \<or> isAsciiLower c)"

definition toAsciiLower :: "char \<Rightarrow> char" where
  "toAsciiLower c =
     (if isAsciiUpper c then ''abcdefghijklmnopqrstuvwxyz'' ! ((of_char c :: nat) - 65) else c)"

definition urlInput :: "string \<Rightarrow> string" where
  "urlInput s =
     filter (\<lambda>c. \<not> isTabOrNewline c) (rev (dropWhile isC0OrSpace (rev (dropWhile isC0OrSpace s))))"

fun schemeState :: "string \<Rightarrow> string \<Rightarrow> (string \<times> string) option" where
  \<comment> \<open>the buffer and the input left; the result is the scheme and what follows the colon\<close>
  "schemeState buffer [] = None"
| "schemeState buffer (c # cs) =
     (if isAsciiAlpha c \<or> isDigit c \<or> c = CHR ''+'' \<or> c = CHR ''-'' \<or> c = CHR ''.''
      then schemeState (buffer @ [toAsciiLower c]) cs
      else if c = CHR '':'' then Some (buffer, cs)
      else None)"

definition schemeStartState :: "string \<Rightarrow> (string \<times> string) option" where
  "schemeStartState s =
     (case s of
        [] \<Rightarrow> None
      | c # cs \<Rightarrow> if isAsciiAlpha c then schemeState [toAsciiLower c] cs else None)"

definition parseURL :: "urlTail \<Rightarrow> string \<Rightarrow> url option" where
  \<comment> \<open>\<open>None\<close>: the constructor throws a TypeError\<close>
  "parseURL tail input =
     (case schemeStartState (urlInput input) of
        None \<Rightarrow> None
      | Some (scheme, remaining) \<Rightarrow>
          (case tail scheme remaining of
             None \<Rightarrow> None
           | Some t \<Rightarrow> Some \<lparr>protocol = scheme @ '':'', href = scheme @ '':'' @ t\<rparr>))"

subsection \<open>normaliseUrl\<close>

definition stripTrailingSlash :: "string \<Rightarrow> string" where
  \<comment> \<open>\<^verbatim>\<open>s.replace(/\/$/, '')\<close>: one slash at the very end is removed\<close>
  "stripTrailingSlash s = (if s \<noteq> [] \<and> last s = CHR ''/'' then butlast s else s)"

text \<open>
  The body of the \<^verbatim>\<open>try\<close> block is a computation of its own: it ends in the returned
  string or in the error thrown, by the constructor or by the protocol check. The
  \<^verbatim>\<open>catch\<close> clause receives either error.
\<close>

definition tryAbsolute :: "urlTail \<Rightarrow> string \<Rightarrow> string \<Rightarrow> string list option \<Rightarrow> error + string" where
  "tryAbsolute tail trimmed key protocolWhitelist =
     (case parseURL tail trimmed of
        None \<Rightarrow> Inl TypeError
      | Some u \<Rightarrow>
          (case protocolWhitelist of
             Some wl \<Rightarrow>
               if protocol u \<notin> set wl then Inl (ProtocolNotAllowed key wl)
               else Inr (stripTrailingSlash (href u))
           | None \<Rightarrow> Inr (stripTrailingSlash (href u))))"

definition normaliseUrl :: "urlTail \<Rightarrow> string \<Rightarrow> string \<Rightarrow> string list option \<Rightarrow> error + string" where
  "normaliseUrl tail v key protocolWhitelist =
     (let trimmed = trim v
      in case tryAbsolute tail trimmed key protocolWhitelist of
           Inr r \<Rightarrow> Inr r
         | Inl err \<Rightarrow>
             if startsWith trimmed ''/'' then Inr (stripTrailingSlash trimmed)
             else Inl (InvalidUrl key))"

subsection \<open>buildPublicEnv\<close>

text \<open>A plain object: its own properties, and whether \<^verbatim>\<open>Object.freeze\<close> was applied.\<close>

record jsobject =
  props :: "string \<rightharpoonup> jsvalue"
  frozen :: bool

definition coerceString :: "jsvalue \<Rightarrow> string" where
  \<comment> \<open>\<^verbatim>\<open>String(value ?? '')\<close>\<close>
  "coerceString v = (case v of JStr s \<Rightarrow> s | _ \<Rightarrow> [])"

definition buildPublicEnv :: "environment \<Rightarrow> (string \<rightharpoonup> jsvalue) \<Rightarrow> jsobject" where
  "buildPublicEnv processEnv overrides =
     (let publicEnvEntries =
            (\<lambda>key. if startsWith key ''PUBLIC_''
                    then map_option (\<lambda>v. JStr (coerceString v)) (processEnv key)
                    else None);
          merged = publicEnvEntries ++ overrides;
          coerced = (\<lambda>key. map_option (\<lambda>v. JStr (coerceString v)) (merged key))
      in \<lparr>props = coerced, frozen = True\<rparr>)"

subsection \<open>buildServerConfig\<close>

record worldConfig =
  name :: string
  dir :: string
  assetsDir :: string
  collectionsDir :: string

record serverSection =
  port :: int
  saveInterval :: int

text \<open>
  \<open>jwtSecret\<close> holds what \<^verbatim>\<open>readEnv\<close> returned, \<open>None\<close> being \<^verbatim>\<open>undefined\<close>; \<open>None\<close> in the
  other optional entries is \<^verbatim>\<open>null\<close>.
\<close>

record authConfig =
  jwtSecret :: "string option"
  adminCode :: "string option"
  hasAdminCode :: bool

record publicConfig =
  assetsUrl :: string
  apiUrl :: string
  wsUrl :: string
  maxUploadSize :: int
  env :: jsobject

text \<open>The \<^verbatim>\<open>livekit\<close> record has a \<^verbatim>\<open>wsUrl\<close> of its own, here \<open>livekitWsUrl\<close>.\<close>

record livekitConfig =
  livekitWsUrl :: "string option"
  apiKey :: "string option"
  apiSecret :: "string option"

record serverConfig =
  rootDir :: string
  world :: worldConfig
  server :: serverSection
  auth :: authConfig
  public :: publicConfig
  livekit :: livekitConfig
  commitHash :: "string option"

definition bindE :: "error + 'a \<Rightarrow> ('a \<Rightarrow> error + 'b) \<Rightarrow> error + 'b" where
  \<comment> \<open>sequencing: an error thrown by a statement ends the function\<close>
  "bindE r f = (case r of Inl e \<Rightarrow> Inl e | Inr x \<Rightarrow> f x)"

definition stringArg :: "string option \<Rightarrow> error + string" where
  \<comment> \<open>a string method or a path function applied to \<^verbatim>\<open>undefined\<close> throws a TypeError\<close>
  "stringArg v = (case v of None \<Rightarrow> Inl TypeError | Some s \<Rightarrow> Inr s)"

definition toStringArg :: "string option \<Rightarrow> string" where
  \<comment> \<open>\<^verbatim>\<open>parseInt\<close> converts its argument by \<^verbatim>\<open>ToString\<close>\<close>
  "toStringArg v = (case v of None \<Rightarrow> ''undefined'' | Some s \<Rightarrow> s)"

definition orNull :: "string option \<Rightarrow> string option" where
  \<comment> \<open>\<^verbatim>\<open>v || null\<close>: \<^verbatim>\<open>undefined\<close> and the empty string become \<^verbatim>\<open>null\<close>, here \<open>None\<close>\<close>
  "orNull v = (case v of None \<Rightarrow> None | Some s \<Rightarrow> if s = [] then None else Some s)"

text \<open>
  The root directory is a parameter: \<^verbatim>\<open>path.resolve\<close> of the option or of the module's
  parent directory, an absolute path in either case.
\<close>

definition buildServerConfig :: "urlTail \<Rightarrow> string \<Rightarrow> environment \<Rightarrow> error + serverConfig" where
  "buildServerConfig tail root processEnv =
     bindE (readEnv processEnv ''WORLD'' (readDefaults\<lparr>required := True\<rparr>)) (\<lambda>worldValue.
     bindE (stringArg worldValue) (\<lambda>worldString.
     bindE (ensureRelativePath worldString ''WORLD'') (\<lambda>worldName.
     let worldDir = joinPath [root, worldName];
         assetsDir' = joinPath [worldDir, ''assets''];
         collectionsDir' = joinPath [worldDir, ''collections'']
     in
     bindE (readEnv processEnv ''PORT'' (readDefaults\<lparr>defaultValue := Some ''3000''\<rparr>)) (\<lambda>portValue.
     bindE (parseInteger (toStringArg portValue) ''PORT''
              (intDefaults\<lparr>minimum := Some 1, maximum := Some 65535\<rparr>)) (\<lambda>port'.
     bindE (readEnv processEnv ''SAVE_INTERVAL'' (readDefaults\<lparr>defaultValue := Some ''60''\<rparr>))
       (\<lambda>saveValue.
     bindE (parseInteger (toStringArg saveValue) ''SAVE_INTERVAL''
              (intDefaults\<lparr>minimum := Some 0\<rparr>)) (\<lambda>saveInterval'.
     bindE (readEnv processEnv ''JWT_SECRET'' (readDefaults\<lparr>required := True\<rparr>)) (\<lambda>jwtSecret'.
     bindE (readEnv processEnv ''PUBLIC_ASSETS_URL''
              (readDefaults\<lparr>defaultValue :=
                 Some (''http://localhost:'' @ numberToString port' @ ''/assets'')\<rparr>))
       (\<lambda>assetsValue.
     bindE (stringArg assetsValue) (\<lambda>assetsString.
     bindE (normaliseUrl tail assetsString ''PUBLIC_ASSETS_URL'' None) (\<lambda>publicAssetsUrl.
     bindE (readEnv processEnv ''PUBLIC_API_URL''
              (readDefaults\<lparr>defaultValue :=
                 Some (''http://localhost:'' @ numberToString port' @ ''/api'')\<rparr>))
       (\<lambda>apiValue.
     bindE (stringArg apiValue) (\<lambda>apiString.
     bindE (normaliseUrl tail apiString ''PUBLIC_API_URL'' None) (\<lambda>publicApiUrl.
     bindE (readEnv processEnv ''PUBLIC_WS_URL''
              (readDefaults\<lparr>defaultValue :=
                 Some (''ws://localhost:'' @ numberToString port' @ ''/ws'')\<rparr>))
       (\<lambda>wsValue.
     bindE (stringArg wsValue) (\<lambda>wsString.
     bindE (normaliseUrl tail wsString ''PUBLIC_WS_URL'' (Some [''ws:'', ''wss:'']))
       (\<lambda>publicWsUrl.
     bindE (readEnv processEnv ''PUBLIC_MAX_UPLOAD_SIZE''
              (readDefaults\<lparr>defaultValue := Some ''12''\<rparr>)) (\<lambda>uploadValue.
     bindE (parseInteger (toStringArg uploadValue) ''PUBLIC_MAX_UPLOAD_SIZE''
              (intDefaults\<lparr>minimum := Some 1\<rparr>)) (\<lambda>publicMaxUploadSize.
     bindE (readEnv processEnv ''ADMIN_CODE'' (readDefaults\<lparr>allowEmpty := True\<rparr>))
       (\<lambda>adminCode'.
     let hasAdminCode' = (case adminCode' of None \<Rightarrow> False | Some a \<Rightarrow> a \<noteq> [] \<and> 0 < length a) in
     bindE (readEnv processEnv ''COMMIT_HASH'' (readDefaults\<lparr>allowEmpty := True\<rparr>))
       (\<lambda>commitValue.
     bindE (readEnv processEnv ''LIVEKIT_WS_URL'' (readDefaults\<lparr>allowEmpty := True\<rparr>))
       (\<lambda>livekitWs.
     bindE (readEnv processEnv ''LIVEKIT_API_KEY'' (readDefaults\<lparr>allowEmpty := True\<rparr>))
       (\<lambda>livekitKey.
     bindE (readEnv processEnv ''LIVEKIT_API_SECRET'' (readDefaults\<lparr>allowEmpty := True\<rparr>))
       (\<lambda>livekitSecret.
     let publicEnv =
           buildPublicEnv processEnv
             [''PUBLIC_ASSETS_URL'' \<mapsto> JStr publicAssetsUrl,
              ''PUBLIC_API_URL'' \<mapsto> JStr publicApiUrl,
              ''PUBLIC_WS_URL'' \<mapsto> JStr publicWsUrl,
              ''PUBLIC_MAX_UPLOAD_SIZE'' \<mapsto> JStr (numberToString publicMaxUploadSize)]
     in
     Inr \<lparr>rootDir = root,
          world = \<lparr>name = worldName, dir = worldDir, assetsDir = assetsDir',
                   collectionsDir = collectionsDir'\<rparr>,
          server = \<lparr>port = port', saveInterval = saveInterval'\<rparr>,
          auth = \<lparr>jwtSecret = jwtSecret', adminCode = orNull adminCode',
                  hasAdminCode = hasAdminCode'\<rparr>,
          public = \<lparr>assetsUrl = publicAssetsUrl, apiUrl = publicApiUrl, wsUrl = publicWsUrl,
                    maxUploadSize = publicMaxUploadSize, env = publicEnv\<rparr>,
          livekit = \<lparr>livekitWsUrl = orNull livekitWs, apiKey = orNull livekitKey,
                     apiSecret = orNull livekitSecret\<rparr>,
          commitHash = orNull commitValue\<rparr>))))))))))))))))))))))))"

subsection \<open>A URL tail for plain authority URLs\<close>

text \<open>
  An instance of the parameter \<open>tail\<close> on the URLs \<^verbatim>\<open>//host[:port][/path]\<close> of the schemes
  \<^verbatim>\<open>http\<close>, \<^verbatim>\<open>https\<close>, \<^verbatim>\<open>ws\<close> and \<^verbatim>\<open>wss\<close>, with a host of lower-case letters separated by
  single dots, a decimal port and a path of lower-case letters, digits and slashes. There
  the parser keeps host and path as they are, writes an empty path as \<^verbatim>\<open>/\<close>, fails on a
  port above 65535 and drops the default port of the scheme. Every other input is outside
  this instance (\<open>None\<close>); it serves to evaluate the functions above on such URLs only.
\<close>

definition specialPort :: "string \<Rightarrow> nat option" where
  "specialPort scheme =
     (if scheme = ''http'' \<or> scheme = ''ws'' then Some 80
      else if scheme = ''https'' \<or> scheme = ''wss'' then Some 443
      else None)"

fun plainHost :: "string \<Rightarrow> bool" where
  \<comment> \<open>lower-case letters, with single dots between them\<close>
  "plainHost [] = False"
| "plainHost [c] = isAsciiLower c"
| "plainHost (c # d # cs) =
     (isAsciiLower c \<and> (if d = CHR ''.'' then plainHost cs else plainHost (d # cs)))"

definition plainPath :: "string \<Rightarrow> bool" where
  "plainPath p = list_all (\<lambda>c. isAsciiLower c \<or> isDigit c \<or> c = CHR ''/'') p"

definition authorityTail :: urlTail where
  "authorityTail scheme remaining =
     (case specialPort scheme of
        None \<Rightarrow> None
      | Some defaultPort \<Rightarrow>
          if take 2 remaining \<noteq> ''//'' then None
          else
            let rest = drop 2 remaining;
                authority = takeWhile (\<lambda>c. c \<noteq> CHR ''/'') rest;
                path = dropWhile (\<lambda>c. c \<noteq> CHR ''/'') rest;
                host = takeWhile (\<lambda>c. c \<noteq> CHR '':'') authority;
                portDigits = drop 1 (dropWhile (\<lambda>c. c \<noteq> CHR '':'') authority)
            in if \<not> plainHost host \<or> \<not> list_all isDigit portDigits \<or> \<not> plainPath path
                  \<or> 65535 < mathInt portDigits
               then None
               else Some (''//'' @ host
                          @ (if portDigits = [] \<or> mathInt portDigits = int defaultPort then []
                             else CHR '':'' # natDigits (nat (mathInt portDigits)))
                          @ (if path = [] then ''/'' else path)))"

subsection \<open>Resolved root directories and a sample environment\<close>

text \<open>
  \<^verbatim>\<open>path.resolve\<close> returns an absolute, normalised path: below the file system root, a
  slash followed by plain segments that slashes separate.
\<close>

definition isPlainSegment :: "string \<Rightarrow> bool" where
  "isPlainSegment seg = (seg \<noteq> [] \<and> seg \<noteq> ''.'' \<and> seg \<noteq> ''..'' \<and> CHR ''/'' \<notin> set seg)"

definition absolutePath :: "string list \<Rightarrow> string" where
  "absolutePath segs = CHR ''/'' # joinSlash segs"

definition relativeForm :: "string list \<Rightarrow> string" where
  \<comment> \<open>a normalised relative path of plain segments; \<^verbatim>\<open>.\<close> when there is none\<close>
  "relativeForm plain = (if plain = [] then ''.'' else joinSlash plain)"

definition configKeys :: "string list" where
  \<comment> \<open>the names that \<^verbatim>\<open>buildServerConfig\<close> reads\<close>
  "configKeys =
     [''WORLD'', ''PORT'', ''SAVE_INTERVAL'', ''JWT_SECRET'', ''PUBLIC_ASSETS_URL'', ''PUBLIC_API_URL'',
      ''PUBLIC_WS_URL'', ''PUBLIC_MAX_UPLOAD_SIZE'', ''ADMIN_CODE'', ''COMMIT_HASH'', ''LIVEKIT_WS_URL'',
      ''LIVEKIT_API_KEY'', ''LIVEKIT_API_SECRET'']"

definition townEnv :: environment where
  "townEnv = [''WORLD'' \<mapsto> JStr ''town/main'', ''JWT_SECRET'' \<mapsto> JStr ''s3cret'']"

definition townConfig :: "int \<Rightarrow> string \<Rightarrow> environment \<Rightarrow> serverConfig" where
  \<comment> \<open>the configuration of \<open>townEnv\<close> under \<^verbatim>\<open>/srv/app\<close>, by port and WebSocket URL\<close>
  "townConfig p ws processEnv =
     \<lparr>rootDir = ''/srv/app'',
      world = \<lparr>name = ''town/main'', dir = ''/srv/app/town/main'',
               assetsDir = ''/srv/app/town/main/assets'',
               collectionsDir = ''/srv/app/town/main/collections''\<rparr>,
      server = \<lparr>port = p, saveInterval = 60\<rparr>,
      auth = \<lparr>jwtSecret = Some ''s3cret'', adminCode = None, hasAdminCode = False\<rparr>,
      public = \<lparr>assetsUrl = ''http://localhost:'' @ numberToString p @ ''/assets'',
                apiUrl = ''http://localhost:'' @ numberToString p @ ''/api'',
                wsUrl = ws, maxUploadSize = 12,
                env = buildPublicEnv processEnv
                        [''PUBLIC_ASSETS_URL'' \<mapsto>
                           JStr (''http://localhost:'' @ numberToString p @ ''/assets''),
                         ''PUBLIC_API_URL'' \<mapsto>
                           JStr (''http://localhost:'' @ numberToString p @ ''/api''),
                         ''PUBLIC_WS_URL'' \<mapsto> JStr ws,
                         ''PUBLIC_MAX_UPLOAD_SIZE'' \<mapsto> JStr ''12'']\<rparr>,
      livekit = \<lparr>livekitWsUrl = None, apiKey = None, apiSecret = None\<rparr>,
      commitHash = None\<rparr>"

section \<open>The module state and the frozen configuration object\<close>

text \<open>
  \<^verbatim>\<open>buildServerConfig\<close> returns seven objects: the configuration, its five nested records
  and the public environment. Each is created once, so a reference is the name of the
  object. A property holds a primitive value or a reference.
\<close>

datatype ref = ConfigRef | WorldRef | ServerRef | AuthRef | PublicRef | PublicEnvRef | LivekitRef

datatype heapValue =
    VUndefined | VNull | VBool bool | VNum int | VStr string | VRef ref

record heapObject =
  properties :: "string \<rightharpoonup> heapValue"
  isFrozen :: bool

type_synonym heap = "ref \<Rightarrow> heapObject"

definition ofJsvalue :: "jsvalue \<Rightarrow> heapValue" where
  "ofJsvalue v = (case v of JUndefined \<Rightarrow> VUndefined | JNull \<Rightarrow> VNull | JStr s \<Rightarrow> VStr s)"

definition strOrNull :: "string option \<Rightarrow> heapValue" where
  "strOrNull v = (case v of None \<Rightarrow> VNull | Some s \<Rightarrow> VStr s)"

definition strOrUndefined :: "string option \<Rightarrow> heapValue" where
  "strOrUndefined v = (case v of None \<Rightarrow> VUndefined | Some s \<Rightarrow> VStr s)"

text \<open>
  The object literal that \<^verbatim>\<open>buildServerConfig\<close> returns: every \<^verbatim>\<open>Object.freeze\<close> of the
  source is a flag \<open>isFrozen = True\<close>; the public environment was frozen by
  \<^verbatim>\<open>buildPublicEnv\<close>.
\<close>

definition configHeap :: "serverConfig \<Rightarrow> heap" where
  "configHeap cfg r =
     (case r of
        ConfigRef \<Rightarrow>
          \<lparr>properties = [''rootDir'' \<mapsto> VStr (rootDir cfg), ''world'' \<mapsto> VRef WorldRef,
                     ''server'' \<mapsto> VRef ServerRef, ''auth'' \<mapsto> VRef AuthRef,
                     ''public'' \<mapsto> VRef PublicRef, ''livekit'' \<mapsto> VRef LivekitRef,
                     ''commitHash'' \<mapsto> strOrNull (commitHash cfg)],
           isFrozen = True\<rparr>
      | WorldRef \<Rightarrow>
          \<lparr>properties = [''name'' \<mapsto> VStr (name (world cfg)), ''dir'' \<mapsto> VStr (dir (world cfg)),
                     ''assetsDir'' \<mapsto> VStr (assetsDir (world cfg)),
                     ''collectionsDir'' \<mapsto> VStr (collectionsDir (world cfg))],
           isFrozen = True\<rparr>
      | ServerRef \<Rightarrow>
          \<lparr>properties = [''port'' \<mapsto> VNum (port (server cfg)),
                     ''saveInterval'' \<mapsto> VNum (saveInterval (server cfg))],
           isFrozen = True\<rparr>
      | AuthRef \<Rightarrow>
          \<lparr>properties = [''jwtSecret'' \<mapsto> strOrUndefined (jwtSecret (auth cfg)),
                     ''adminCode'' \<mapsto> strOrNull (adminCode (auth cfg)),
                     ''hasAdminCode'' \<mapsto> VBool (hasAdminCode (auth cfg))],
           isFrozen = True\<rparr>
      | PublicRef \<Rightarrow>
          \<lparr>properties = [''assetsUrl'' \<mapsto> VStr (assetsUrl (public cfg)),
                     ''apiUrl'' \<mapsto> VStr (apiUrl (public cfg)),
                     ''wsUrl'' \<mapsto> VStr (wsUrl (public cfg)),
                     ''maxUploadSize'' \<mapsto> VNum (maxUploadSize (public cfg)),
                     ''env'' \<mapsto> VRef PublicEnvRef],
           isFrozen = True\<rparr>
      | PublicEnvRef \<Rightarrow>
          \<lparr>properties = map_option ofJsvalue \<circ> props (env (public cfg)),
           isFrozen = frozen (env (public cfg))\<rparr>
      | LivekitRef \<Rightarrow>
          \<lparr>properties = [''wsUrl'' \<mapsto> strOrNull (livekitWsUrl (livekit cfg)),
                     ''apiKey'' \<mapsto> strOrNull (apiKey (livekit cfg)),
                     ''apiSecret'' \<mapsto> strOrNull (apiSecret (livekit cfg))],
           isFrozen = True\<rparr>)"

text \<open>
  The module evaluates \<^verbatim>\<open>const serverConfig = buildServerConfig()\<close> once, when it is
  loaded; an error there ends the load. Afterwards the state of the process is the
  environment, the heap and the binding \<^verbatim>\<open>serverConfig\<close>.
\<close>

record moduleState =
  processEnv :: environment
  objects :: heap
  serverConfigBinding :: ref

definition loadModule :: "urlTail \<Rightarrow> string \<Rightarrow> environment \<Rightarrow> error + moduleState" where
  "loadModule tail root E =
     bindE (buildServerConfig tail root E) (\<lambda>cfg.
       Inr \<lparr>processEnv = E, objects = configHeap cfg, serverConfigBinding = ConfigRef\<rparr>)"

definition getServerConfig :: "moduleState \<Rightarrow> ref" where
  "getServerConfig st = serverConfigBinding st"

text \<open>
  What a consumer can do with the process afterwards: call the accessor, change the
  environment, and try to assign or delete a property of an object it holds. The module
  is strict code, so writing to a frozen object throws a TypeError and changes nothing;
  an object that is not frozen takes the write.
\<close>

datatype action =
    CallGetServerConfig
  | SetEnv string string
  | DeleteEnv string
  | Assign ref string heapValue
  | Delete ref string

datatype outcome = Returned heapValue | Thrown error

definition getProperty :: "heap \<Rightarrow> ref \<Rightarrow> string \<Rightarrow> heapValue" where
  "getProperty h r key = (case properties (h r) key of None \<Rightarrow> VUndefined | Some v \<Rightarrow> v)"

fun perform :: "action \<Rightarrow> moduleState \<Rightarrow> outcome \<times> moduleState" where
  "perform CallGetServerConfig st = (Returned (VRef (getServerConfig st)), st)"
| "perform (SetEnv key v) st = (Returned (VStr v), st\<lparr>processEnv := (processEnv st)(key \<mapsto> JStr v)\<rparr>)"
| "perform (DeleteEnv key) st = (Returned (VBool True), st\<lparr>processEnv := (processEnv st)(key := None)\<rparr>)"
| "perform (Assign r key v) st =
     (if isFrozen (objects st r) then (Thrown TypeError, st)
      else (Returned v,
            st\<lparr>objects := (objects st)(r := (objects st r)\<lparr>properties := (properties (objects st r))(key \<mapsto> v)\<rparr>)\<rparr>))"
| "perform (Delete r key) st =
     (if isFrozen (objects st r) then
        (if properties (objects st r) key = None then (Returned (VBool True), st)
         else (Thrown TypeError, st))
      else (Returned (VBool True),
            st\<lparr>objects := (objects st)(r := (objects st r)\<lparr>properties := (properties (objects st r))(key := None)\<rparr>)\<rparr>))"

fun performAll :: "action list \<Rightarrow> moduleState \<Rightarrow> moduleState" where
  "performAll [] st = st"
| "performAll (a # as) st = performAll as (snd (perform a st))"

section \<open>Reading a token (src/core/utils-server.js)\<close>

text \<open>
  \<^verbatim>\<open>jwt.verify\<close> belongs to the jsonwebtoken library. With a callback it reports its result
  by one call of the callback: an error and no payload, or no error and the decoded
  payload. The verification itself is the parameter \<open>verify\<close>, from the token and the
  secret to the failure or the payload.
\<close>

datatype verifyError = TokenExpired | InvalidSignature | Malformed

type_synonym 'p verifier = "string \<Rightarrow> string option \<Rightarrow> verifyError + 'p"

datatype ('a, 'e) promise = Resolved 'a | Rejected 'e

definition newPromise ::
  "(('a \<Rightarrow> ('a, 'e) promise) \<Rightarrow> ('e \<Rightarrow> ('a, 'e) promise) \<Rightarrow> ('a, 'e) promise) \<Rightarrow> ('a, 'e) promise" where
  \<comment> \<open>the executor settles the promise by calling \<open>resolve\<close> or \<open>reject\<close>\<close>
  "newPromise executor = executor Resolved Rejected"

definition jwtVerify ::
  "'p verifier \<Rightarrow> string \<Rightarrow> string option \<Rightarrow> (verifyError option \<Rightarrow> 'p option \<Rightarrow> 'r) \<Rightarrow> 'r" where
  "jwtVerify verify token secret callback =
     (case verify token secret of
        Inl err \<Rightarrow> callback (Some err) None
      | Inr data \<Rightarrow> callback None (Some data))"

text \<open>The resolved value \<open>None\<close> is \<^verbatim>\<open>null\<close>.\<close>

definition readJWT :: "'p verifier \<Rightarrow> serverConfig \<Rightarrow> string \<Rightarrow> ('p option, verifyError) promise" where
  "readJWT verify cfg token =
     newPromise (\<lambda>resolve reject.
       jwtVerify verify token (jwtSecret (auth cfg))
         (\<lambda>err data. resolve (if err \<noteq> None then None else data)))"

section \<open>Verification\<close>

subsection \<open>Evaluating the definitions\<close>

lemmas evaluation =
  readEnv_def lookupEnv_def objectPrototype_def nativeFunction_def townEnv_def readDefaults_def intDefaults_def trim_def trimStart_def
  isWhiteSpace_def startsWith_def isAbsolute_def normalizePath_def normalizeString_def
  normalizeStep_def joinPath_def ensureRelativePath_def parseInteger_def parseInt_def
  isDigit_def mathInt_def digitValue_def toNumber_def roundToDouble_def numberToString_def
  natToString_def natDigits.simps digitChar_def normaliseUrl_def tryAbsolute_def parseURL_def
  schemeStartState_def urlInput_def isC0OrSpace_def isTabOrNewline_def isAsciiAlpha_def
  isAsciiUpper_def isAsciiLower_def toAsciiLower_def stripTrailingSlash_def authorityTail_def
  specialPort_def plainPath_def

lemma bindE_InrE:
  assumes "bindE r f = Inr y"
  obtains x where "r = Inr x" and "f x = Inr y"
  using assms by (cases r) (simp_all add: bindE_def)

lemma stringArg_Inr: "stringArg v = Inr s \<longleftrightarrow> v = Some s"
  by (cases v) (simp_all add: stringArg_def)

lemma numberToString_3000: "numberToString 3000 = ''3000''"
  by (simp add: evaluation)

lemma numberToString_8080: "numberToString 8080 = ''8080''"
  by (simp add: evaluation)

lemma numberToString_12: "numberToString 12 = ''12''"
  by (simp add: evaluation)

text \<open>
  \<^verbatim>\<open>buildServerConfig\<close> for an environment that sets \<^verbatim>\<open>WORLD=town/main\<close>, a secret, and at
  most \<^verbatim>\<open>PORT\<close> and \<^verbatim>\<open>PUBLIC_WS_URL\<close> beside them, once the port and the WebSocket URL are
  resolved.
\<close>

lemma town_build:
  assumes world: "E ''WORLD'' = Some (JStr ''town/main'')"
    and jwt: "E ''JWT_SECRET'' = Some (JStr ''s3cret'')"
    and unset: "\<And>k. k \<in> {''SAVE_INTERVAL'', ''PUBLIC_ASSETS_URL'', ''PUBLIC_API_URL'',
                  ''PUBLIC_MAX_UPLOAD_SIZE'', ''ADMIN_CODE'', ''COMMIT_HASH'', ''LIVEKIT_WS_URL'',
                  ''LIVEKIT_API_KEY'', ''LIVEKIT_API_SECRET''} \<Longrightarrow> E k = None"
    and port: "readEnv E ''PORT'' (readDefaults\<lparr>defaultValue := Some ''3000''\<rparr>) = Inr (Some ps)"
    and portInt: "parseInteger ps ''PORT'' (intDefaults\<lparr>minimum := Some 1, maximum := Some 65535\<rparr>)
                  = Inr p"
    and assets: "normaliseUrl authorityTail (''http://localhost:'' @ numberToString p @ ''/assets'')
                   ''PUBLIC_ASSETS_URL'' None
                 = Inr (''http://localhost:'' @ numberToString p @ ''/assets'')"
    and api: "normaliseUrl authorityTail (''http://localhost:'' @ numberToString p @ ''/api'')
                ''PUBLIC_API_URL'' None
              = Inr (''http://localhost:'' @ numberToString p @ ''/api'')"
    and ws: "readEnv E ''PUBLIC_WS_URL''
               (readDefaults\<lparr>defaultValue := Some (''ws://localhost:'' @ numberToString p @ ''/ws'')\<rparr>)
             = Inr (Some wv)"
    and wsUrl: "normaliseUrl authorityTail wv ''PUBLIC_WS_URL'' (Some [''ws:'', ''wss:'']) = Inr w"
  shows "buildServerConfig authorityTail ''/srv/app'' E = Inr (townConfig p w E)"
proof -
  have w: "readEnv E ''WORLD'' (readDefaults\<lparr>required := True\<rparr>) = Inr (Some ''town/main'')"
    by (simp add: world evaluation)
  have rel: "ensureRelativePath ''town/main'' ''WORLD'' = Inr ''town/main''"
    by (simp add: evaluation)
  have dirs: "joinPath [''/srv/app'', ''town/main''] = ''/srv/app/town/main''"
    "joinPath [''/srv/app/town/main'', ''assets''] = ''/srv/app/town/main/assets''"
    "joinPath [''/srv/app/town/main'', ''collections''] = ''/srv/app/town/main/collections''"
    by (simp_all add: evaluation)
  have save: "readEnv E ''SAVE_INTERVAL'' (readDefaults\<lparr>defaultValue := Some ''60''\<rparr>) = Inr (Some ''60'')"
    by (simp add: unset evaluation)
  have saveInt: "parseInteger ''60'' ''SAVE_INTERVAL'' (intDefaults\<lparr>minimum := Some 0\<rparr>) = Inr 60"
    by (simp add: evaluation)
  have secret: "readEnv E ''JWT_SECRET'' (readDefaults\<lparr>required := True\<rparr>) = Inr (Some ''s3cret'')"
    by (simp add: jwt evaluation)
  have urls:
    "\<And>d. readEnv E ''PUBLIC_ASSETS_URL'' (readDefaults\<lparr>defaultValue := Some d\<rparr>) = Inr (Some d)"
    "\<And>d. readEnv E ''PUBLIC_API_URL'' (readDefaults\<lparr>defaultValue := Some d\<rparr>) = Inr (Some d)"
    by (simp_all add: unset readEnv_def lookupEnv_def objectPrototype_def readDefaults_def)
  have upload: "readEnv E ''PUBLIC_MAX_UPLOAD_SIZE'' (readDefaults\<lparr>defaultValue := Some ''12''\<rparr>)
      = Inr (Some ''12'')"
    by (simp add: unset readEnv_def lookupEnv_def objectPrototype_def readDefaults_def)
  have uploadInt: "parseInteger ''12'' ''PUBLIC_MAX_UPLOAD_SIZE'' (intDefaults\<lparr>minimum := Some 1\<rparr>) = Inr 12"
    by (simp add: evaluation)
  have opt: "readEnv E ''ADMIN_CODE'' (readDefaults\<lparr>allowEmpty := True\<rparr>) = Inr None"
    "readEnv E ''COMMIT_HASH'' (readDefaults\<lparr>allowEmpty := True\<rparr>) = Inr None"
    "readEnv E ''LIVEKIT_WS_URL'' (readDefaults\<lparr>allowEmpty := True\<rparr>) = Inr None"
    "readEnv E ''LIVEKIT_API_KEY'' (readDefaults\<lparr>allowEmpty := True\<rparr>) = Inr None"
    "readEnv E ''LIVEKIT_API_SECRET'' (readDefaults\<lparr>allowEmpty := True\<rparr>) = Inr None"
    by (simp_all add: unset readEnv_def lookupEnv_def objectPrototype_def readDefaults_def)
  show ?thesis
    unfolding buildServerConfig_def townConfig_def
    by (simp add: w rel dirs port portInt save saveInt secret urls assets [simplified]
        api [simplified] ws [simplified] wsUrl upload uploadInt opt bindE_def stringArg_def
        toStringArg_def orNull_def numberToString_12)
qed

lemma town_config:
  "buildServerConfig authorityTail ''/srv/app'' townEnv
     = Inr (townConfig 3000 ''ws://localhost:3000/ws'' townEnv)"
  by (rule town_build [where ps = "''3000''" and wv = "''ws://localhost:3000/ws''"])
     (simp_all add: numberToString_3000, auto simp: evaluation)

lemma town_config_8080:
  "buildServerConfig authorityTail ''/srv/app'' (townEnv(''PORT'' \<mapsto> JStr ''8080''))
     = Inr (townConfig 8080 ''ws://localhost:8080/ws'' (townEnv(''PORT'' \<mapsto> JStr ''8080'')))"
  by (rule town_build [where ps = "''8080''" and wv = "''ws://localhost:8080/ws''"])
     (simp_all add: numberToString_8080, auto simp: evaluation)

lemma town_config_wss:
  "buildServerConfig authorityTail ''/srv/app'' (townEnv(''PUBLIC_WS_URL'' \<mapsto> JStr ''wss://example.com/''))
     = Inr (townConfig 3000 ''wss://example.com''
              (townEnv(''PUBLIC_WS_URL'' \<mapsto> JStr ''wss://example.com/'')))"
  by (rule town_build [where ps = "''3000''" and wv = "''wss://example.com/''"])
     (simp_all add: numberToString_3000, auto simp: evaluation)

subsection \<open>The steps of a successful construction\<close>

lemma buildServerConfig_steps:
  assumes "buildServerConfig tail root E = Inr cfg"
  shows "\<exists>worldString portValue saveValue assetsString apiString wsString uploadValue
           adminValue commitValue livekitWs livekitKey livekitSecret.
     readEnv E ''WORLD'' (readDefaults\<lparr>required := True\<rparr>) = Inr (Some worldString)
   \<and> ensureRelativePath worldString ''WORLD'' = Inr (name (world cfg))
   \<and> dir (world cfg) = joinPath [root, name (world cfg)]
   \<and> assetsDir (world cfg) = joinPath [dir (world cfg), ''assets'']
   \<and> collectionsDir (world cfg) = joinPath [dir (world cfg), ''collections'']
   \<and> readEnv E ''PORT'' (readDefaults\<lparr>defaultValue := Some ''3000''\<rparr>) = Inr portValue
   \<and> parseInteger (toStringArg portValue) ''PORT''
        (intDefaults\<lparr>minimum := Some 1, maximum := Some 65535\<rparr>) = Inr (port (server cfg))
   \<and> readEnv E ''SAVE_INTERVAL'' (readDefaults\<lparr>defaultValue := Some ''60''\<rparr>) = Inr saveValue
   \<and> parseInteger (toStringArg saveValue) ''SAVE_INTERVAL'' (intDefaults\<lparr>minimum := Some 0\<rparr>)
        = Inr (saveInterval (server cfg))
   \<and> readEnv E ''JWT_SECRET'' (readDefaults\<lparr>required := True\<rparr>) = Inr (jwtSecret (auth cfg))
   \<and> readEnv E ''PUBLIC_ASSETS_URL''
        (readDefaults\<lparr>defaultValue :=
           Some (''http://localhost:'' @ numberToString (port (server cfg)) @ ''/assets'')\<rparr>)
        = Inr (Some assetsString)
   \<and> normaliseUrl tail assetsString ''PUBLIC_ASSETS_URL'' None = Inr (assetsUrl (public cfg))
   \<and> readEnv E ''PUBLIC_API_URL''
        (readDefaults\<lparr>defaultValue :=
           Some (''http://localhost:'' @ numberToString (port (server cfg)) @ ''/api'')\<rparr>)
        = Inr (Some apiString)
   \<and> normaliseUrl tail apiString ''PUBLIC_API_URL'' None = Inr (apiUrl (public cfg))
   \<and> readEnv E ''PUBLIC_WS_URL''
        (readDefaults\<lparr>defaultValue :=
           Some (''ws://localhost:'' @ numberToString (port (server cfg)) @ ''/ws'')\<rparr>)
        = Inr (Some wsString)
   \<and> normaliseUrl tail wsString ''PUBLIC_WS_URL'' (Some [''ws:'', ''wss:''])
        = Inr (wsUrl (public cfg))
   \<and> readEnv E ''PUBLIC_MAX_UPLOAD_SIZE'' (readDefaults\<lparr>defaultValue := Some ''12''\<rparr>)
        = Inr uploadValue
   \<and> parseInteger (toStringArg uploadValue) ''PUBLIC_MAX_UPLOAD_SIZE''
        (intDefaults\<lparr>minimum := Some 1\<rparr>) = Inr (maxUploadSize (public cfg))
   \<and> readEnv E ''ADMIN_CODE'' (readDefaults\<lparr>allowEmpty := True\<rparr>) = Inr adminValue
   \<and> adminCode (auth cfg) = orNull adminValue
   \<and> hasAdminCode (auth cfg)
        = (case adminValue of None \<Rightarrow> False | Some a \<Rightarrow> a \<noteq> [] \<and> 0 < length a)
   \<and> readEnv E ''COMMIT_HASH'' (readDefaults\<lparr>allowEmpty := True\<rparr>) = Inr commitValue
   \<and> commitHash cfg = orNull commitValue
   \<and> readEnv E ''LIVEKIT_WS_URL'' (readDefaults\<lparr>allowEmpty := True\<rparr>) = Inr livekitWs
   \<and> readEnv E ''LIVEKIT_API_KEY'' (readDefaults\<lparr>allowEmpty := True\<rparr>) = Inr livekitKey
   \<and> readEnv E ''LIVEKIT_API_SECRET'' (readDefaults\<lparr>allowEmpty := True\<rparr>) = Inr livekitSecret
   \<and> livekit cfg = \<lparr>livekitWsUrl = orNull livekitWs, apiKey = orNull livekitKey,
                      apiSecret = orNull livekitSecret\<rparr>
   \<and> env (public cfg) =
        buildPublicEnv E
          [''PUBLIC_ASSETS_URL'' \<mapsto> JStr (assetsUrl (public cfg)),
           ''PUBLIC_API_URL'' \<mapsto> JStr (apiUrl (public cfg)),
           ''PUBLIC_WS_URL'' \<mapsto> JStr (wsUrl (public cfg)),
           ''PUBLIC_MAX_UPLOAD_SIZE'' \<mapsto> JStr (numberToString (maxUploadSize (public cfg)))]
   \<and> rootDir cfg = root"
  using assms unfolding buildServerConfig_def Let_def
  apply (elim bindE_InrE)
  apply (simp only: stringArg_Inr)
  apply clarsimp
  done

lemma not_Inr_isl: "(\<And>y. r \<noteq> Inr y) \<Longrightarrow> isl r"
  by (cases r) auto

subsection \<open>Reading a variable\<close>

lemma dropWhile_all_Nil: "list_all P (dropWhile P xs) \<Longrightarrow> dropWhile P xs = []"
  by (induction xs) (auto split: if_splits)

lemma trim_not_whitespaceOnly: "trim s \<noteq> [] \<Longrightarrow> \<not> whitespaceOnly (trim s)"
  unfolding trim_def whitespaceOnly_def
  by (metis dropWhile_all_Nil list_all_rev rev_is_Nil_conv rev_rev_ident)

lemma readEnv_absent:
  "isAbsent E key \<Longrightarrow> readEnv E key opts = resolveMissing opts (EnvRequired key)"
  by (auto simp: isAbsent_def readEnv_def resolveMissing_def split: jsvalue.splits option.splits)

lemma readEnv_blank:
  "\<not> isAbsent E key \<Longrightarrow> trimmedValue E key = [] \<Longrightarrow> \<not> allowEmpty opts \<Longrightarrow>
     readEnv E key opts = resolveMissing opts (EnvEmpty key)"
  by (auto simp: isAbsent_def trimmedValue_def readEnv_def resolveMissing_def
      split: jsvalue.splits option.splits)

lemma readEnv_present:
  "\<not> isAbsent E key \<Longrightarrow> trimmedValue E key \<noteq> [] \<or> allowEmpty opts \<Longrightarrow>
     readEnv E key opts = Inr (Some (trimmedValue E key))"
  by (auto simp: isAbsent_def trimmedValue_def readEnv_def split: jsvalue.splits)

lemma readEnv_required_missing:
  assumes "isAbsent E key \<or> trimmedValue E key = []"
  shows "isl (readEnv E key (readDefaults\<lparr>required := True\<rparr>))"
proof (cases "isAbsent E key")
  case True
  then show ?thesis by (simp add: readEnv_absent resolveMissing_def readDefaults_def)
next
  case False
  with assms show ?thesis by (simp add: readEnv_blank resolveMissing_def readDefaults_def)
qed

lemma lookupEnv_unset:
  "E key = None \<Longrightarrow> objectPrototype key = None \<Longrightarrow> lookupEnv E key = JUndefined"
  by (simp add: lookupEnv_def)

lemma lookupEnv_inherited:
  "E key = None \<Longrightarrow> objectPrototype key = Some shown \<Longrightarrow> lookupEnv E key = JStr shown"
  by (simp add: lookupEnv_def)

lemma lookupEnv_set: "E key = Some x \<Longrightarrow> lookupEnv E key = x"
  by (simp add: lookupEnv_def)

lemma configKeys_all_not_inherited: "list_all (\<lambda>key. objectPrototype key = None) configKeys"
  by (simp add: configKeys_def objectPrototype_def)

lemma configKeys_not_inherited: "key \<in> set configKeys \<Longrightarrow> objectPrototype key = None"
  using configKeys_all_not_inherited by (simp add: list_all_iff)

text \<open>
  C2 (amended). What \<^verbatim>\<open>readEnv\<close> resolves is the value of \<^verbatim>\<open>process.env[key]\<close>. That value is
  absent (\<^verbatim>\<open>undefined\<close> or \<^verbatim>\<open>null\<close>) for a variable that is not set, unless the key names a
  property of \<^verbatim>\<open>Object.prototype\<close>: then the inherited property is read in place of the
  variable, and its text is the value. None of the keys that \<^verbatim>\<open>buildServerConfig\<close> reads is
  such a name. On the value read, \<^verbatim>\<open>readEnv\<close> implements the resolution algorithm for every
  key: an absent value resolves by the default/required logic (the default if one is
  provided, else a failure if required, else absent); a present value is trimmed, and a
  value that is empty after trimming while \<open>allowEmpty\<close> is false resolves by the same
  logic; any other present value resolves to its trimmed form. So a required value without
  a default that is absent or blank makes \<^verbatim>\<open>readEnv\<close> fail, and construction fails when
  \<^verbatim>\<open>WORLD\<close> or \<^verbatim>\<open>JWT_SECRET\<close> is not set, absent or blank. With \<open>allowEmpty\<close> false, a returned
  value is not white space only, unless it is the caller's default, which is returned as
  it is.
\<close>

theorem readEnv_resolution:
  "(E key = None \<and> objectPrototype key = None \<longrightarrow>
        isAbsent E key \<and> readEnv E key opts = resolveMissing opts (EnvRequired key))
   \<and> (E key = None \<and> objectPrototype key = Some shown \<longrightarrow>
        \<not> isAbsent E key \<and> trimmedValue E key = trim shown)
   \<and> (E key = Some JUndefined \<or> E key = Some JNull \<longrightarrow> isAbsent E key)
   \<and> (E key = Some (JStr raw) \<longrightarrow> \<not> isAbsent E key \<and> trimmedValue E key = trim raw)
   \<and> (key \<in> set configKeys \<longrightarrow> objectPrototype key = None)
   \<and> (isAbsent E key \<longrightarrow> readEnv E key opts = resolveMissing opts (EnvRequired key))
   \<and> (\<not> isAbsent E key \<and> trimmedValue E key = [] \<and> \<not> allowEmpty opts \<longrightarrow>
        readEnv E key opts = resolveMissing opts (EnvEmpty key))
   \<and> (\<not> isAbsent E key \<and> (trimmedValue E key \<noteq> [] \<or> allowEmpty opts) \<longrightarrow>
        readEnv E key opts = Inr (Some (trimmedValue E key)))
   \<and> (required opts \<and> defaultValue opts = None
        \<and> (isAbsent E key \<or> (trimmedValue E key = [] \<and> \<not> allowEmpty opts)) \<longrightarrow>
        isl (readEnv E key opts))
   \<and> ((key = ''WORLD'' \<or> key = ''JWT_SECRET'') \<and> (isAbsent E key \<or> trimmedValue E key = []) \<longrightarrow>
        isl (buildServerConfig tail root E))
   \<and> ((key = ''WORLD'' \<or> key = ''JWT_SECRET'') \<and> E key = None \<longrightarrow>
        isl (buildServerConfig tail root E))
   \<and> (readEnv E key opts = Inr (Some v) \<and> \<not> allowEmpty opts \<and> defaultValue opts \<noteq> Some v \<longrightarrow>
        \<not> whitespaceOnly v)"
proof -
  have unset: "isAbsent E key" if "E key = None" "objectPrototype key = None"
    using lookupEnv_unset [of E key, OF that] by (simp add: isAbsent_def)
  have inherited: "\<not> isAbsent E key \<and> trimmedValue E key = trim shown"
    if "E key = None" "objectPrototype key = Some shown"
    using lookupEnv_inherited [of E key shown, OF that] by (simp add: isAbsent_def trimmedValue_def)
  have undefined: "isAbsent E key" if "E key = Some JUndefined \<or> E key = Some JNull"
    using that lookupEnv_set [of E key] by (auto simp: isAbsent_def)
  have string: "\<not> isAbsent E key \<and> trimmedValue E key = trim raw" if "E key = Some (JStr raw)"
    using lookupEnv_set [of E key "JStr raw", OF that] by (simp add: isAbsent_def trimmedValue_def)
  have fails: "required opts \<Longrightarrow> defaultValue opts = None \<Longrightarrow>
      isAbsent E key \<or> (trimmedValue E key = [] \<and> \<not> allowEmpty opts) \<Longrightarrow> isl (readEnv E key opts)"
    using readEnv_absent [of E key opts] readEnv_blank [of E key opts]
    by (cases "isAbsent E key") (auto simp: resolveMissing_def)
  have build: "isl (buildServerConfig tail root E)"
    if key: "key = ''WORLD'' \<or> key = ''JWT_SECRET''"
      and missing: "isAbsent E key \<or> trimmedValue E key = []"
  proof (rule not_Inr_isl)
    fix cfg
    show "buildServerConfig tail root E \<noteq> Inr cfg"
    proof
      assume "buildServerConfig tail root E = Inr cfg"
      from buildServerConfig_steps [OF this]
      have "\<not> isl (readEnv E ''WORLD'' (readDefaults\<lparr>required := True\<rparr>))"
        and "\<not> isl (readEnv E ''JWT_SECRET'' (readDefaults\<lparr>required := True\<rparr>))"
        by auto
      with key readEnv_required_missing [OF missing] show False by auto
    qed
  qed
  have omitted: "isl (buildServerConfig tail root E)"
    if key: "key = ''WORLD'' \<or> key = ''JWT_SECRET''" and none: "E key = None"
  proof -
    from key have "key \<in> set configKeys"
      by (auto simp: configKeys_def)
    then have "objectPrototype key = None"
      by (rule configKeys_not_inherited)
    then have "isAbsent E key"
      by (rule unset [OF none])
    then show ?thesis
      using build [OF key] by blast
  qed
  have nonblank: "readEnv E key opts = Inr (Some v) \<Longrightarrow> \<not> allowEmpty opts \<Longrightarrow>
      defaultValue opts \<noteq> Some v \<Longrightarrow> \<not> whitespaceOnly v"
    using trim_not_whitespaceOnly
    by (auto simp: readEnv_def Let_def split: jsvalue.splits if_splits)
  have p1: "E key = None \<and> objectPrototype key = None \<longrightarrow>
      isAbsent E key \<and> readEnv E key opts = resolveMissing opts (EnvRequired key)"
    using unset readEnv_absent [of E key opts] by blast
  have p2: "E key = None \<and> objectPrototype key = Some shown \<longrightarrow>
      \<not> isAbsent E key \<and> trimmedValue E key = trim shown"
    using inherited by blast
  have p3: "E key = Some JUndefined \<or> E key = Some JNull \<longrightarrow> isAbsent E key"
    using undefined by blast
  have p4: "E key = Some (JStr raw) \<longrightarrow> \<not> isAbsent E key \<and> trimmedValue E key = trim raw"
    using string by blast
  have p5: "key \<in> set configKeys \<longrightarrow> objectPrototype key = None"
    using configKeys_not_inherited [of key] by blast
  have p6: "isAbsent E key \<longrightarrow> readEnv E key opts = resolveMissing opts (EnvRequired key)"
    using readEnv_absent [of E key opts] by blast
  have p7: "\<not> isAbsent E key \<and> trimmedValue E key = [] \<and> \<not> allowEmpty opts \<longrightarrow>
      readEnv E key opts = resolveMissing opts (EnvEmpty key)"
    using readEnv_blank [of E key opts] by blast
  have p8: "\<not> isAbsent E key \<and> (trimmedValue E key \<noteq> [] \<or> allowEmpty opts) \<longrightarrow>
      readEnv E key opts = Inr (Some (trimmedValue E key))"
    using readEnv_present [of E key opts] by blast
  have p9: "required opts \<and> defaultValue opts = None
      \<and> (isAbsent E key \<or> (trimmedValue E key = [] \<and> \<not> allowEmpty opts)) \<longrightarrow>
      isl (readEnv E key opts)"
    using fails by blast
  have p10: "(key = ''WORLD'' \<or> key = ''JWT_SECRET'') \<and> (isAbsent E key \<or> trimmedValue E key = []) \<longrightarrow>
      isl (buildServerConfig tail root E)"
    using build by blast
  have p11: "(key = ''WORLD'' \<or> key = ''JWT_SECRET'') \<and> E key = None \<longrightarrow>
      isl (buildServerConfig tail root E)"
    using omitted by blast
  have p12: "readEnv E key opts = Inr (Some v) \<and> \<not> allowEmpty opts \<and> defaultValue opts \<noteq> Some v \<longrightarrow>
      \<not> whitespaceOnly v"
    using nonblank by blast
  show ?thesis
    by (intro conjI p1 p2 p3 p4 p5 p6 p7 p8 p9 p10 p11 p12)
qed

theorem readEnv_resolution_witness:
  "readEnv townEnv ''PORT'' (readDefaults\<lparr>defaultValue := Some ''3000''\<rparr>) = Inr (Some ''3000'')
   \<and> readEnv (townEnv(''JWT_SECRET'' \<mapsto> JStr ''  '')) ''JWT_SECRET'' (readDefaults\<lparr>required := True\<rparr>)
       = Inl (EnvEmpty ''JWT_SECRET'')
   \<and> readEnv (townEnv(''WORLD'' \<mapsto> JStr '' town/main '')) ''WORLD'' (readDefaults\<lparr>required := True\<rparr>)
       = Inr (Some ''town/main'')
   \<and> isl (readEnv Map.empty ''WORLD'' (readDefaults\<lparr>required := True\<rparr>))
   \<and> isl (buildServerConfig authorityTail ''/srv/app'' (townEnv(''JWT_SECRET'' \<mapsto> JStr ''  '')))
   \<and> \<not> whitespaceOnly ''town/main''
   \<and> isAbsent townEnv ''PORT''
   \<and> isAbsent (townEnv(''PORT'' \<mapsto> JNull)) ''PORT''
   \<and> \<not> isAbsent townEnv ''toString''
   \<and> trimmedValue townEnv ''toString'' = ''function toString() { [native code] }''
   \<and> readEnv townEnv ''toString'' (readDefaults\<lparr>defaultValue := Some ''3000''\<rparr>)
       = Inr (Some ''function toString() { [native code] }'')
   \<and> objectPrototype ''PORT'' = None
   \<and> isl (buildServerConfig authorityTail ''/srv/app'' (townEnv(''WORLD'' := None)))"
proof -
  let ?req = "readDefaults\<lparr>required := True\<rparr>"
  let ?port = "readDefaults\<lparr>defaultValue := Some ''3000''\<rparr>"
  let ?blank = "townEnv(''JWT_SECRET'' \<mapsto> JStr ''  '')"
  let ?padded = "townEnv(''WORLD'' \<mapsto> JStr '' town/main '')"
  let ?shown = "''function toString() { [native code] }''"
  have a: "townEnv ''PORT'' = None \<and> objectPrototype ''PORT'' = None"
    by (simp add: objectPrototype_def townEnv_def)
  have absent: "isAbsent townEnv ''PORT''"
    using readEnv_resolution [where E = townEnv and key = "''PORT''"] a by blast
  have port: "readEnv townEnv ''PORT'' ?port = Inr (Some ''3000'')"
    using readEnv_resolution [where E = townEnv and key = "''PORT''" and opts = ?port] absent
    by (simp add: resolveMissing_def readDefaults_def)
  have null: "isAbsent (townEnv(''PORT'' \<mapsto> JNull)) ''PORT''"
    using readEnv_resolution [where E = "townEnv(''PORT'' \<mapsto> JNull)" and key = "''PORT''"]
    by simp
  have b: "?blank ''JWT_SECRET'' = Some (JStr ''  '') \<and> trim ''  '' = [] \<and> \<not> allowEmpty ?req"
    by (simp add: readDefaults_def evaluation)
  have blank: "\<not> isAbsent ?blank ''JWT_SECRET'' \<and> trimmedValue ?blank ''JWT_SECRET'' = []"
    using readEnv_resolution [where E = ?blank and key = "''JWT_SECRET''" and raw = "''  ''"] b
    by simp
  have empty: "readEnv ?blank ''JWT_SECRET'' ?req = Inl (EnvEmpty ''JWT_SECRET'')"
    using readEnv_resolution [where E = ?blank and key = "''JWT_SECRET''" and opts = ?req] b blank
    by (simp add: resolveMissing_def readDefaults_def)
  have build: "isl (buildServerConfig authorityTail ''/srv/app'' ?blank)"
    using readEnv_resolution [where E = ?blank and key = "''JWT_SECRET''" and tail = authorityTail
        and root = "''/srv/app''"] blank
    by blast
  have c: "?padded ''WORLD'' = Some (JStr '' town/main '') \<and> trim '' town/main '' = ''town/main''"
    by (simp add: evaluation)
  have padded: "\<not> isAbsent ?padded ''WORLD'' \<and> trimmedValue ?padded ''WORLD'' = ''town/main''"
    using readEnv_resolution [where E = ?padded and key = "''WORLD''" and raw = "'' town/main ''"] c
    by simp
  have world: "readEnv ?padded ''WORLD'' ?req = Inr (Some ''town/main'')"
    using readEnv_resolution [where E = ?padded and key = "''WORLD''" and opts = ?req] padded
    by simp
  have d: "required ?req \<and> defaultValue ?req = None \<and> \<not> allowEmpty ?req
           \<and> defaultValue ?req \<noteq> Some ''town/main''"
    by (simp add: readDefaults_def)
  have e: "Map.empty ''WORLD'' = (None :: jsvalue option) \<and> ''WORLD'' \<in> set configKeys"
    by (simp add: configKeys_def)
  have none: "isAbsent Map.empty ''WORLD''"
    using readEnv_resolution [where E = Map.empty and key = "''WORLD''"] e by blast
  have missing: "isl (readEnv Map.empty ''WORLD'' ?req)"
    using readEnv_resolution [where E = Map.empty and key = "''WORLD''" and opts = ?req] d none
    by blast
  have nonblank: "\<not> whitespaceOnly ''town/main''"
    using readEnv_resolution [where E = ?padded and key = "''WORLD''" and opts = ?req
        and v = "''town/main''"] world d
    by blast
  have f: "townEnv ''toString'' = None \<and> objectPrototype ''toString'' = Some ?shown
           \<and> trim ?shown = ?shown"
    by (simp add: evaluation)
  have inherited: "\<not> isAbsent townEnv ''toString'' \<and> trimmedValue townEnv ''toString'' = ?shown"
    using readEnv_resolution [where E = townEnv and key = "''toString''" and shown = ?shown] f
    by simp
  have fn: "readEnv townEnv ''toString'' ?port = Inr (Some ?shown)"
    using readEnv_resolution [where E = townEnv and key = "''toString''" and opts = ?port] inherited
    by simp
  have key: "objectPrototype ''PORT'' = None"
    using readEnv_resolution [where key = "''PORT''"] by (simp add: configKeys_def)
  have g: "(townEnv(''WORLD'' := None)) ''WORLD'' = None"
    by simp
  have omitted: "isl (buildServerConfig authorityTail ''/srv/app'' (townEnv(''WORLD'' := None)))"
    using readEnv_resolution [where E = "townEnv(''WORLD'' := None)" and key = "''WORLD''"
        and tail = authorityTail and root = "''/srv/app''"] g
    by blast
  show ?thesis
    using port empty world missing build nonblank absent null inherited fn key omitted
    by blast
qed

theorem readEnv_blank_default_counterexample:
  "readEnv Map.empty ''PORT'' (readDefaults\<lparr>defaultValue := Some '' ''\<rparr>) = Inr (Some '' '')
   \<and> whitespaceOnly '' ''
   \<and> \<not> allowEmpty (readDefaults\<lparr>defaultValue := Some '' ''\<rparr>)
   \<and> Map.empty ''__proto__'' = (None :: jsvalue option)
   \<and> readEnv Map.empty ''__proto__'' (readDefaults\<lparr>required := True\<rparr>) = Inr (Some ''[object Object]'')
   \<and> readEnv Map.empty ''toString'' (readDefaults\<lparr>defaultValue := Some ''3000''\<rparr>)
       = Inr (Some ''function toString() { [native code] }'')"
  by (simp add: evaluation whitespaceOnly_def isWhiteSpace_def)

subsection \<open>Paths\<close>

lemma splitSlash_not_Nil [simp]: "splitSlash s \<noteq> []"
  by (induction s) (auto split: list.splits)

lemma splitSlash_append: "splitSlash (a @ CHR ''/'' # b) = splitSlash a @ splitSlash b"
  by (induction a) (auto split: list.splits)

lemma splitSlash_plain: "CHR ''/'' \<notin> set seg \<Longrightarrow> splitSlash seg = [seg]"
  by (induction seg) auto

lemma splitSlash_joinSlash:
  "segs \<noteq> [] \<Longrightarrow> list_all (\<lambda>seg. CHR ''/'' \<notin> set seg) segs \<Longrightarrow> splitSlash (joinSlash segs) = segs"
proof (induction segs rule: joinSlash.induct)
  case 1
  then show ?case by simp
next
  case (2 seg)
  then show ?case by (simp add: splitSlash_plain)
next
  case (3 seg s segs)
  then show ?case by (simp add: splitSlash_append splitSlash_plain)
qed

lemma joinSlash_append:
  "a \<noteq> [] \<Longrightarrow> b \<noteq> [] \<Longrightarrow> joinSlash (a @ b) = joinSlash a @ CHR ''/'' # joinSlash b"
  by (induction a rule: joinSlash.induct) (auto simp: neq_Nil_conv)

lemma joinSlash_eq_Nil: "joinSlash segs = [] \<longleftrightarrow> segs = [] \<or> segs = [[]]"
  by (induction segs rule: joinSlash.induct) auto

lemma foldl_normalizeStep_plain:
  "list_all isPlainSegment segs \<Longrightarrow> foldl (normalizeStep allow) res segs = res @ segs"
  by (induction segs arbitrary: res) (auto simp: normalizeStep_def isPlainSegment_def)

lemma last_joinSlash:
  "segs \<noteq> [] \<Longrightarrow> last segs \<noteq> [] \<Longrightarrow> last (joinSlash segs) = last (last segs)"
  by (induction segs rule: joinSlash.induct) (auto simp: joinSlash_eq_Nil)

lemma normalize_absolutePath:
  assumes "segs \<noteq> []" and "list_all isPlainSegment segs"
  shows "normalizePath (absolutePath segs) = absolutePath segs"
proof -
  have slashfree: "list_all (\<lambda>seg. CHR ''/'' \<notin> set seg) segs"
    using assms(2) by (induction segs) (auto simp: isPlainSegment_def)
  have split: "splitSlash (absolutePath segs) = [] # segs"
    using assms(1) slashfree by (simp add: absolutePath_def splitSlash_joinSlash)
  have walk: "normalizeString (absolutePath segs) False = joinSlash segs"
    using assms(2) foldl_normalizeStep_plain [of segs False "[]"]
    by (simp add: normalizeString_def split normalizeStep_def)
  have "last segs \<in> set segs"
    using assms(1) by simp
  then have lastseg: "last segs \<noteq> [] \<and> CHR ''/'' \<notin> set (last segs)"
    using assms(2) by (auto simp: list_all_iff isPlainSegment_def)
  then have nonempty: "joinSlash segs \<noteq> []"
    using assms(1) by (auto simp: joinSlash_eq_Nil)
  have "last (joinSlash segs) = last (last segs)"
    using lastseg assms(1) by (simp add: last_joinSlash)
  moreover have "last (last segs) \<in> set (last segs)"
    using lastseg last_in_set by blast
  ultimately have "last (joinSlash segs) \<noteq> CHR ''/''"
    using lastseg by metis
  then show ?thesis
    using nonempty
    by (simp add: normalizePath_def walk [unfolded absolutePath_def] isAbsolute_def absolutePath_def)
qed

lemma joinPath_absolutePath:
  assumes "segs \<noteq> []" and "list_all isPlainSegment segs"
    and "rs \<noteq> []" and "list_all isPlainSegment rs"
  shows "joinPath [absolutePath segs, joinSlash rs] = absolutePath (segs @ rs)"
proof -
  have "last rs \<in> set rs"
    using assms(3) by simp
  then have "last rs \<noteq> []"
    using assms(4) by (auto simp: list_all_iff isPlainSegment_def)
  then have "joinSlash rs \<noteq> []"
    using assms(3) by (auto simp: joinSlash_eq_Nil)
  then have "joinPath [absolutePath segs, joinSlash rs]
      = normalizePath (absolutePath segs @ CHR ''/'' # joinSlash rs)"
    by (simp add: joinPath_def absolutePath_def)
  also have "absolutePath segs @ CHR ''/'' # joinSlash rs = absolutePath (segs @ rs)"
    using assms(1,3) by (simp add: absolutePath_def joinSlash_append)
  also have "normalizePath (absolutePath (segs @ rs)) = absolutePath (segs @ rs)"
    using assms by (intro normalize_absolutePath) auto
  finally show ?thesis .
qed

lemma town_main_dirs:
  assumes "segs \<noteq> []" and "list_all isPlainSegment segs"
  shows "joinPath [absolutePath segs, ''town/main''] = absolutePath segs @ ''/town/main''"
    and "joinPath [absolutePath segs @ ''/town/main'', ''assets'']
         = absolutePath segs @ ''/town/main/assets''"
proof -
  have plain: "list_all isPlainSegment [''town'', ''main'']" "list_all isPlainSegment [''assets'']"
    by (simp_all add: isPlainSegment_def)
  have d: "absolutePath (segs @ [''town'', ''main'']) = absolutePath segs @ ''/town/main''"
    using assms(1) by (simp add: absolutePath_def joinSlash_append)
  show "joinPath [absolutePath segs, ''town/main''] = absolutePath segs @ ''/town/main''"
    using joinPath_absolutePath [OF assms _ plain(1)] d by simp
  have "joinPath [absolutePath (segs @ [''town'', ''main'']), joinSlash [''assets'']]
      = absolutePath ((segs @ [''town'', ''main'']) @ [''assets''])"
    using assms(2) plain by (intro joinPath_absolutePath) auto
  moreover have "absolutePath ((segs @ [''town'', ''main'']) @ [''assets''])
      = absolutePath segs @ ''/town/main/assets''"
    using assms(1) by (simp add: absolutePath_def joinSlash_append)
  ultimately show "joinPath [absolutePath segs @ ''/town/main'', ''assets'']
      = absolutePath segs @ ''/town/main/assets''"
    using d by simp
qed

lemma trim_idem: "trim (trim s) = trim s"
proof -
  have "dropWhile isWhiteSpace (rev (dropWhile isWhiteSpace (rev t)))
        = rev (dropWhile isWhiteSpace (rev t))"
    if "t = [] \<or> \<not> isWhiteSpace (hd t)" for t
  proof (cases "dropWhile isWhiteSpace (rev t) = []")
    case True
    show ?thesis by (simp only: True rev.simps dropWhile.simps)
  next
    case False
    then have "t \<noteq> []" by auto
    with that have h: "\<not> isWhiteSpace (hd t)" by simp
    obtain u where u: "rev t = u @ [hd t]"
      using \<open>t \<noteq> []\<close> by (metis hd_Cons_tl rev.simps(2))
    have "hd t \<in> set (dropWhile isWhiteSpace (rev t))"
      using h u by (simp add: dropWhile_append3)
    moreover have "last (dropWhile isWhiteSpace (rev t)) = hd t"
      using False u h by (simp add: dropWhile_append3)
    ultimately have "hd (rev (dropWhile isWhiteSpace (rev t))) = hd t"
      using False by (simp add: hd_rev)
    then show ?thesis
      using h False by (metis dropWhile_eq_self_iff rev_is_Nil_conv)
  qed
  moreover have "dropWhile isWhiteSpace s = [] \<or> \<not> isWhiteSpace (hd (dropWhile isWhiteSpace s))"
    using hd_dropWhile by blast
  moreover have "dropWhile isWhiteSpace (rev (rev (dropWhile isWhiteSpace (rev t))))
        = dropWhile isWhiteSpace (rev t)" for t
    by (metis dropWhile_idem rev_rev_ident)
  ultimately show ?thesis
    by (simp add: trim_def)
qed

lemma readEnv_WORLD:
  assumes "readEnv E ''WORLD'' (readDefaults\<lparr>required := True\<rparr>) = Inr (Some w)"
  shows "w = trimmedValue E ''WORLD''"
  using assms
  by (auto simp: readEnv_def trimmedValue_def readDefaults_def Let_def
      split: jsvalue.splits if_splits)

text \<open>
  What \<^verbatim>\<open>normalizeString\<close> keeps of a relative path: some \<^verbatim>\<open>..\<close> segments, then plain
  segments only.
\<close>

lemma splitSlash_slashfree: "seg \<in> set (splitSlash s) \<Longrightarrow> CHR ''/'' \<notin> set seg"
  by (induction s arbitrary: seg) (auto split: if_splits list.splits)

lemma normalizeStep_shape:
  assumes "res = replicate k ''..'' @ plain" and "list_all isPlainSegment plain"
    and "CHR ''/'' \<notin> set seg"
  shows "\<exists>k' plain'. normalizeStep True res seg = replicate k' ''..'' @ plain'
           \<and> list_all isPlainSegment plain'"
proof -
  consider (skip) "seg = [] \<or> seg = ''.''" | (up) "seg = ''..''"
    | (plain) "seg \<noteq> []" "seg \<noteq> ''.''" "seg \<noteq> ''..''"
    by blast
  then show ?thesis
  proof cases
    case skip
    then show ?thesis
      using assms by (auto simp: normalizeStep_def)
  next
    case up
    show ?thesis
    proof (cases "plain = []")
      case True
      then have "normalizeStep True res seg = replicate (Suc k) ''..'' @ []"
        using assms(1) up by (auto simp: normalizeStep_def replicate_append_same last_replicate)
      moreover have "list_all isPlainSegment []"
        by simp
      ultimately show ?thesis
        by blast
    next
      case False
      then have "last plain \<in> set plain"
        by simp
      then have "last plain \<noteq> ''..''"
        using assms(2) by (auto simp: list_all_iff isPlainSegment_def)
      then have "normalizeStep True res seg = replicate k ''..'' @ butlast plain"
        using assms(1) up False by (simp add: normalizeStep_def butlast_append)
      moreover have "list_all isPlainSegment (butlast plain)"
        using assms(2) by (auto simp: list_all_iff dest: in_set_butlastD)
      ultimately show ?thesis
        by blast
    qed
  next
    case plain
    then have "normalizeStep True res seg = replicate k ''..'' @ (plain @ [seg])"
      using assms(1) by (simp add: normalizeStep_def)
    moreover have "list_all isPlainSegment (plain @ [seg])"
      using assms(2,3) plain by (simp add: isPlainSegment_def)
    ultimately show ?thesis
      by blast
  qed
qed

lemma foldl_normalizeStep_shape:
  assumes "res = replicate k ''..'' @ plain" and "list_all isPlainSegment plain"
    and "\<And>seg. seg \<in> set segs \<Longrightarrow> CHR ''/'' \<notin> set seg"
  shows "\<exists>k' plain'. foldl (normalizeStep True) res segs = replicate k' ''..'' @ plain'
           \<and> list_all isPlainSegment plain'"
  using assms
proof (induction segs arbitrary: res k plain)
  case Nil
  then show ?case by auto
next
  case (Cons seg segs)
  have "CHR ''/'' \<notin> set seg"
    using Cons.prems(3) by simp
  from normalizeStep_shape [OF Cons.prems(1,2) this]
  obtain k' plain' where step: "normalizeStep True res seg = replicate k' ''..'' @ plain'"
    and plain': "list_all isPlainSegment plain'"
    by blast
  have "\<And>s. s \<in> set segs \<Longrightarrow> CHR ''/'' \<notin> set s"
    using Cons.prems(3) by simp
  from Cons.IH [OF step plain' this] show ?case
    by simp
qed

lemma startsWith_append: "startsWith s p \<Longrightarrow> startsWith (s @ t) p"
proof -
  assume "startsWith s p"
  then have "s = p @ drop (length p) s"
    by (metis append_take_drop_id startsWith_def)
  then have "s @ t = p @ (drop (length p) s @ t)"
    by (metis append.assoc)
  then show ?thesis
    by (metis append_eq_conv_conj startsWith_def)
qed

lemma joinSlash_dotdot: "startsWith (joinSlash (''..'' # segs)) ''..''"
  by (cases segs) (simp_all add: startsWith_def)

lemma isAbsolute_hd: "isAbsolute p \<longleftrightarrow> p \<noteq> [] \<and> hd p = CHR ''/''"
  by (cases p) (simp_all add: isAbsolute_def)

lemma joinSlash_plain_head:
  assumes "plain \<noteq> []" and "list_all isPlainSegment plain"
  shows "joinSlash plain \<noteq> [] \<and> hd (joinSlash plain) \<noteq> CHR ''/''"
proof -
  obtain seg segs where p: "plain = seg # segs"
    using assms(1) by (cases plain) auto
  then obtain c cs where seg: "seg = c # cs" and "c \<noteq> CHR ''/''"
    using assms(2) by (cases seg) (auto simp: isPlainSegment_def)
  then show ?thesis
    using p by (cases segs) simp_all
qed

text \<open>
  A value that \<^verbatim>\<open>ensureRelativePath\<close> accepts is returned as plain segments joined by
  slashes (\<^verbatim>\<open>.\<close> when there is none), with or without a slash at the end.
\<close>

lemma ensureRelativePath_shape:
  assumes "ensureRelativePath v key = Inr n"
  shows "\<exists>plain. list_all isPlainSegment plain
           \<and> (n = relativeForm plain \<or> n = relativeForm plain @ ''/'')"
proof (cases "v = []")
  case True
  with assms have "n = relativeForm []"
    by (simp add: ensureRelativePath_def normalizePath_def isAbsolute_def startsWith_def
        relativeForm_def)
  then show ?thesis
    by (intro exI [of _ "[]"]) simp
next
  case False
  from assms have rel: "\<not> isAbsolute v" and n: "n = normalizePath v"
    and ok: "\<not> startsWith (normalizePath v) ''..''"
    by (auto simp: ensureRelativePath_def Let_def split: if_splits)
  obtain k plain where res: "foldl (normalizeStep True) [] (splitSlash v) = replicate k ''..'' @ plain"
    and plain: "list_all isPlainSegment plain"
    using foldl_normalizeStep_shape [of "[]" 0 "[]" "splitSlash v"] splitSlash_slashfree
    by auto
  define q where "q = joinSlash (replicate k ''..'' @ plain)"
  have norm: "normalizePath v =
      (if q = [] then (if last v = CHR ''/'' then ''./'' else ''.'')
       else if last v = CHR ''/'' then q @ ''/'' else q)"
    using False rel by (simp add: normalizePath_def normalizeString_def res q_def Let_def)
  have k: "k = 0"
  proof (rule ccontr)
    assume "k \<noteq> 0"
    then obtain j where "k = Suc j"
      by (cases k) auto
    then have dots: "startsWith q ''..''"
      unfolding q_def using joinSlash_dotdot [of "replicate j ''..'' @ plain"] by simp
    then have "q \<noteq> []"
      by (auto simp: startsWith_def)
    moreover have "startsWith (q @ ''/'') ''..''"
      using dots by (rule startsWith_append)
    ultimately show False
      using dots ok unfolding norm by (simp split: if_splits)
  qed
  have "q = [] \<longleftrightarrow> plain = []"
    using k plain joinSlash_plain_head [of plain] by (auto simp: q_def)
  then have "n = relativeForm plain \<or> n = relativeForm plain @ ''/''"
    using n norm k by (auto simp: q_def relativeForm_def)
  with plain show ?thesis
    by blast
qed

lemma splitSlash_relativeForm:
  assumes "list_all isPlainSegment plain"
  shows "splitSlash (relativeForm plain) = (if plain = [] then [''.''] else plain)"
    and "relativeForm plain \<noteq> []" and "last (relativeForm plain) \<noteq> CHR ''/''"
    and "hd (relativeForm plain) \<noteq> CHR ''/''"
proof -
  have slashfree: "list_all (\<lambda>seg. CHR ''/'' \<notin> set seg) plain"
    using assms by (auto simp: list_all_iff isPlainSegment_def)
  show "splitSlash (relativeForm plain) = (if plain = [] then [''.''] else plain)"
    using slashfree by (simp add: relativeForm_def splitSlash_joinSlash)
  show "relativeForm plain \<noteq> []" "hd (relativeForm plain) \<noteq> CHR ''/''"
    using joinSlash_plain_head [OF _ assms] by (auto simp: relativeForm_def)
  show "last (relativeForm plain) \<noteq> CHR ''/''"
  proof (cases "plain = []")
    case True
    then show ?thesis by (simp add: relativeForm_def)
  next
    case False
    then have "last plain \<in> set plain"
      by simp
    then have l: "last plain \<noteq> []" "CHR ''/'' \<notin> set (last plain)"
      using assms by (auto simp: list_all_iff isPlainSegment_def)
    then have "last (last plain) \<in> set (last plain)"
      using last_in_set by blast
    then show ?thesis
      using False l by (metis last_joinSlash relativeForm_def)
  qed
qed

text \<open>
  A value that \<^verbatim>\<open>ensureRelativePath\<close> accepts is returned as a relative path without any
  \<^verbatim>\<open>..\<close> segment.
\<close>

lemma ensureRelativePath_no_traversal:
  assumes "ensureRelativePath v key = Inr n"
  shows "\<not> isAbsolute n \<and> ''..'' \<notin> set (splitSlash n)"
proof -
  from ensureRelativePath_shape [OF assms] obtain plain where plain: "list_all isPlainSegment plain"
    and n: "n = relativeForm plain \<or> n = relativeForm plain @ ''/''"
    by blast
  note form = splitSlash_relativeForm [OF plain]
  have "''..'' \<notin> set plain"
    using plain by (auto simp: list_all_iff isPlainSegment_def)
  then have "''..'' \<notin> set (splitSlash (relativeForm plain))"
    by (simp add: form(1))
  moreover have "splitSlash (relativeForm plain @ ''/'') = splitSlash (relativeForm plain) @ [[]]"
    using splitSlash_append [of "relativeForm plain" "[]"] by simp
  moreover have "\<not> isAbsolute (relativeForm plain) \<and> \<not> isAbsolute (relativeForm plain @ ''/'')"
    using form(2,4) by (simp add: isAbsolute_hd)
  ultimately show ?thesis
    using n by auto
qed

text \<open>Joined with a resolved root, such a path stays below that root.\<close>

lemma normalizePath_below_root:
  assumes segs: "segs \<noteq> []" "list_all isPlainSegment segs" and plain: "list_all isPlainSegment plain"
  shows "normalizePath (absolutePath segs @ CHR ''/'' # relativeForm plain) = absolutePath (segs @ plain)"
    and "normalizePath (absolutePath segs @ CHR ''/'' # relativeForm plain @ ''/'')
         = absolutePath (segs @ plain) @ ''/''"
proof -
  note form = splitSlash_relativeForm [OF plain]
  have slashfree: "list_all (\<lambda>seg. CHR ''/'' \<notin> set seg) segs"
    using segs(2) by (auto simp: list_all_iff isPlainSegment_def)
  have root: "splitSlash (absolutePath segs) = [] # segs"
    using segs(1) slashfree by (simp add: absolutePath_def splitSlash_joinSlash)
  have walk: "foldl (normalizeStep False) [] (([] # segs) @ ys) = foldl (normalizeStep False) segs ys" for ys
    using foldl_normalizeStep_plain [OF segs(2), of False "[]"] by (simp add: normalizeStep_def)
  have tail: "foldl (normalizeStep False) segs (splitSlash (relativeForm plain)) = segs @ plain"
    using foldl_normalizeStep_plain [OF plain, of False segs]
    by (simp add: form(1) normalizeStep_def)
  have all: "list_all isPlainSegment (segs @ plain)" "segs @ plain \<noteq> []"
    using segs plain by simp_all
  have q: "joinSlash (segs @ plain) \<noteq> []"
    using joinSlash_plain_head [OF all(2,1)] by simp
  have "splitSlash (absolutePath segs @ CHR ''/'' # relativeForm plain)
      = ([] # segs) @ splitSlash (relativeForm plain)"
    by (simp only: splitSlash_append root)
  then have one: "normalizeString (absolutePath segs @ CHR ''/'' # relativeForm plain) False
      = joinSlash (segs @ plain)"
    unfolding normalizeString_def by (simp only: walk tail)
  have "splitSlash (relativeForm plain @ ''/'') = splitSlash (relativeForm plain) @ [[]]"
    using splitSlash_append [of "relativeForm plain" "[]"] by simp
  then have split2: "splitSlash (absolutePath segs @ CHR ''/'' # relativeForm plain @ ''/'')
      = ([] # segs) @ (splitSlash (relativeForm plain) @ [[]])"
    by (simp only: splitSlash_append root)
  have tail2: "foldl (normalizeStep False) segs (splitSlash (relativeForm plain) @ [[]]) = segs @ plain"
    by (simp add: tail normalizeStep_def)
  have two: "normalizeString (absolutePath segs @ CHR ''/'' # relativeForm plain @ ''/'') False
      = joinSlash (segs @ plain)"
    unfolding normalizeString_def by (simp only: split2 walk tail2)
  have abs: "isAbsolute (absolutePath segs @ x)" for x
    by (simp add: isAbsolute_def absolutePath_def)
  have "normalizePath (absolutePath segs @ CHR ''/'' # relativeForm plain)
      = CHR ''/'' # joinSlash (segs @ plain)"
    using q form(2,3) by (simp add: normalizePath_def one abs Let_def)
  then show "normalizePath (absolutePath segs @ CHR ''/'' # relativeForm plain)
      = absolutePath (segs @ plain)"
    by (simp add: absolutePath_def)
  have "normalizePath (absolutePath segs @ CHR ''/'' # relativeForm plain @ ''/'')
      = CHR ''/'' # joinSlash (segs @ plain) @ ''/''"
    using q by (simp add: normalizePath_def two abs Let_def)
  then show "normalizePath (absolutePath segs @ CHR ''/'' # relativeForm plain @ ''/'')
      = absolutePath (segs @ plain) @ ''/''"
    by (simp add: absolutePath_def)
qed

lemma joinPath_below_root:
  assumes "segs \<noteq> []" and "list_all isPlainSegment segs"
    and "ensureRelativePath v key = Inr n"
  shows "\<exists>plain. list_all isPlainSegment plain
           \<and> (joinPath [absolutePath segs, n] = absolutePath (segs @ plain)
                \<or> joinPath [absolutePath segs, n] = absolutePath (segs @ plain) @ ''/'')"
proof -
  from ensureRelativePath_shape [OF assms(3)] obtain plain where plain: "list_all isPlainSegment plain"
    and n: "n = relativeForm plain \<or> n = relativeForm plain @ ''/''"
    by blast
  have "n \<noteq> []"
    using n splitSlash_relativeForm(2) [OF plain] by auto
  then have "joinPath [absolutePath segs, n] = normalizePath (absolutePath segs @ CHR ''/'' # n)"
    by (simp add: joinPath_def absolutePath_def)
  then show ?thesis
    using n plain normalizePath_below_root [OF assms(1,2) plain] by auto
qed

text \<open>
  C1. For every value, \<^verbatim>\<open>ensureRelativePath\<close> fails when the value is an absolute path or
  when its normalisation begins with the parent-directory marker \<^verbatim>\<open>..\<close>, and returns the
  normalised path otherwise: a relative path without any \<^verbatim>\<open>..\<close> segment. It rejects \<^verbatim>\<open>/etc\<close>, \<^verbatim>\<open>../../secrets\<close> and \<^verbatim>\<open>a/../../b\<close> (which
  normalises to \<^verbatim>\<open>../b\<close>) and accepts \<^verbatim>\<open>a/b\<close> and \<^verbatim>\<open>./a\<close>, returning \<^verbatim>\<open>a\<close> for the latter.
  Construction fails for such a \<^verbatim>\<open>WORLD\<close> value; when it succeeds, \<open>world.name\<close> is the
  normalised value, \<open>world.dir\<close> is the root joined with it and \<open>world.assetsDir\<close> is that
  joined with \<^verbatim>\<open>assets\<close>: for \<^verbatim>\<open>WORLD=town/main\<close> and a resolved root directory these are
  \<^verbatim>\<open><root>/town/main\<close> and \<^verbatim>\<open><root>/town/main/assets\<close>.
\<close>

theorem ensureRelativePath_contract:
  "ensureRelativePath v key =
     (if isAbsolute v then Inl (NotRelative key)
      else if startsWith (normalizePath v) ''..'' then Inl (Traversal key)
      else Inr (normalizePath v))
   \<and> (ensureRelativePath v key = Inr n \<longrightarrow> \<not> isAbsolute n \<and> ''..'' \<notin> set (splitSlash n))
   \<and> ensureRelativePath ''/etc'' key = Inl (NotRelative key)
   \<and> ensureRelativePath ''../../secrets'' key = Inl (Traversal key)
   \<and> normalizePath ''a/../../b'' = ''../b''
   \<and> ensureRelativePath ''a/../../b'' key = Inl (Traversal key)
   \<and> ensureRelativePath ''a/b'' key = Inr ''a/b''
   \<and> ensureRelativePath ''./a'' key = Inr ''a''
   \<and> (isAbsolute (trimmedValue E ''WORLD'') \<or> startsWith (normalizePath (trimmedValue E ''WORLD'')) ''..''
        \<longrightarrow> isl (buildServerConfig tail root E))
   \<and> (buildServerConfig tail root E = Inr cfg \<longrightarrow>
        name (world cfg) = normalizePath (trimmedValue E ''WORLD'')
        \<and> dir (world cfg) = joinPath [root, name (world cfg)]
        \<and> assetsDir (world cfg) = joinPath [dir (world cfg), ''assets''])
   \<and> (E ''WORLD'' = Some (JStr ''town/main'') \<and> segs \<noteq> [] \<and> list_all isPlainSegment segs
        \<and> buildServerConfig tail (absolutePath segs) E = Inr cfg' \<longrightarrow>
        dir (world cfg') = absolutePath segs @ ''/town/main''
        \<and> assetsDir (world cfg') = absolutePath segs @ ''/town/main/assets'')"
proof -
  have contract: "ensureRelativePath w k =
     (if isAbsolute w then Inl (NotRelative k)
      else if startsWith (normalizePath w) ''..'' then Inl (Traversal k)
      else Inr (normalizePath w))" for w k
    by (simp add: ensureRelativePath_def Let_def)
  have examples: "ensureRelativePath ''/etc'' key = Inl (NotRelative key)"
    "ensureRelativePath ''../../secrets'' key = Inl (Traversal key)"
    "normalizePath ''a/../../b'' = ''../b''"
    "ensureRelativePath ''a/../../b'' key = Inl (Traversal key)"
    "ensureRelativePath ''a/b'' key = Inr ''a/b''"
    "ensureRelativePath ''./a'' key = Inr ''a''"
    by (simp_all add: evaluation)
  have success: "name (world c) = normalizePath (trimmedValue E ''WORLD'')
      \<and> \<not> isAbsolute (trimmedValue E ''WORLD'')
      \<and> \<not> startsWith (normalizePath (trimmedValue E ''WORLD'')) ''..''
      \<and> dir (world c) = joinPath [r, name (world c)]
      \<and> assetsDir (world c) = joinPath [dir (world c), ''assets'']"
    if "buildServerConfig tail r E = Inr c" for r c
  proof -
    from buildServerConfig_steps [OF that] obtain w where
      w: "readEnv E ''WORLD'' (readDefaults\<lparr>required := True\<rparr>) = Inr (Some w)"
      and rel: "ensureRelativePath w ''WORLD'' = Inr (name (world c))"
      and dirs: "dir (world c) = joinPath [r, name (world c)]"
        "assetsDir (world c) = joinPath [dir (world c), ''assets'']"
      by blast
    from readEnv_WORLD [OF w] rel show ?thesis
      using dirs by (auto simp: contract split: if_splits)
  qed
  have failure: "isl (buildServerConfig tail root E)"
    if "isAbsolute (trimmedValue E ''WORLD'') \<or> startsWith (normalizePath (trimmedValue E ''WORLD'')) ''..''"
    using that success [of root] by (intro not_Inr_isl) blast
  have town: "dir (world cfg') = absolutePath segs @ ''/town/main''
      \<and> assetsDir (world cfg') = absolutePath segs @ ''/town/main/assets''"
    if E: "E ''WORLD'' = Some (JStr ''town/main'')" and segs: "segs \<noteq> []" "list_all isPlainSegment segs"
      and ok: "buildServerConfig tail (absolutePath segs) E = Inr cfg'"
  proof -
    have "trimmedValue E ''WORLD'' = ''town/main''"
      by (simp add: trimmedValue_def lookupEnv_def objectPrototype_def E evaluation)
    moreover have "normalizePath ''town/main'' = ''town/main''"
      by (simp add: evaluation)
    ultimately have "name (world cfg') = ''town/main''"
      using success [OF ok] by simp
    then show ?thesis
      using success [OF ok] town_main_dirs [OF segs] by simp
  qed
  show ?thesis
    using contract [of v key] ensureRelativePath_no_traversal [of v key n] examples failure
      success [of root cfg] town
    by blast
qed

theorem ensureRelativePath_contract_witness:
  "\<not> isAbsolute ''a/b'' \<and> ''..'' \<notin> set (splitSlash ''a/b'')
   \<and> isl (buildServerConfig authorityTail ''/srv/app'' (townEnv(''WORLD'' \<mapsto> JStr ''a/../../b'')))
   \<and> name (world (townConfig 3000 ''ws://localhost:3000/ws'' townEnv)) = ''town/main''
   \<and> dir (world (townConfig 3000 ''ws://localhost:3000/ws'' townEnv)) = ''/srv/app/town/main''
   \<and> assetsDir (world (townConfig 3000 ''ws://localhost:3000/ws'' townEnv))
       = ''/srv/app/town/main/assets''"
proof -
  let ?bad = "townEnv(''WORLD'' \<mapsto> JStr ''a/../../b'')"
  let ?cfg = "townConfig 3000 ''ws://localhost:3000/ws'' townEnv"
  have root: "absolutePath [''srv'', ''app''] = ''/srv/app''"
    by (simp add: absolutePath_def)
  have bad: "startsWith (normalizePath (trimmedValue ?bad ''WORLD'')) ''..''"
    by (simp add: trimmedValue_def lookupEnv_def objectPrototype_def evaluation)
  have good: "townEnv ''WORLD'' = Some (JStr ''town/main'')"
    "[''srv'', ''app''] \<noteq> []" "list_all isPlainSegment [''srv'', ''app'']"
    "trimmedValue townEnv ''WORLD'' = ''town/main''" "normalizePath ''town/main'' = ''town/main''"
    by (simp_all add: isPlainSegment_def trimmedValue_def lookupEnv_def objectPrototype_def evaluation)
  have "\<not> isAbsolute ''a/b'' \<and> ''..'' \<notin> set (splitSlash ''a/b'')"
    using ensureRelativePath_contract [of "''a/b''" "''WORLD''" "''a/b''"] by blast
  moreover have "isl (buildServerConfig authorityTail ''/srv/app'' ?bad)"
    using ensureRelativePath_contract [of "''a/b''" "''WORLD''" _ ?bad authorityTail "''/srv/app''"] bad
    by blast
  moreover have "dir (world ?cfg) = ''/srv/app'' @ ''/town/main''
      \<and> assetsDir (world ?cfg) = ''/srv/app'' @ ''/town/main/assets''
      \<and> name (world ?cfg) = normalizePath (trimmedValue townEnv ''WORLD'')"
    using ensureRelativePath_contract
        [of "''a/b''" "''WORLD''" _ townEnv authorityTail "''/srv/app''" ?cfg "[''srv'', ''app'']" ?cfg,
         unfolded root]
      good(1-3) town_config
    by blast
  ultimately show ?thesis
    by (simp add: good)
qed

subsection \<open>Integers\<close>

lemma digitChar_digit: "d < 10 \<Longrightarrow> isDigit (digitChar d) \<and> digitValue (digitChar d) = int d"
proof -
  assume "d < 10"
  then have "d \<in> {0, 1, 2, 3, 4, 5, 6, 7, 8, 9}"
    by auto
  then show ?thesis
    by (auto simp: digitChar_def isDigit_def digitValue_def)
qed

lemma natDigits_digits: "natDigits n \<noteq> [] \<and> list_all isDigit (natDigits n)"
proof (induction n rule: natDigits.induct)
  case (1 n)
  show ?case
  proof (cases "n < 10")
    case True
    then show ?thesis
      by (subst (1 2) natDigits.simps) (simp add: digitChar_digit)
  next
    case False
    with 1 show ?thesis
      by (subst (1 2) natDigits.simps) (simp add: digitChar_digit)
  qed
qed

lemma mathInt_snoc: "mathInt (z @ [c]) = 10 * mathInt z + digitValue c"
  by (simp add: mathInt_def)

lemma mathInt_natDigits: "mathInt (natDigits n) = int n"
proof (induction n rule: natDigits.induct)
  case (1 n)
  show ?case
  proof (cases "n < 10")
    case True
    then show ?thesis
      by (subst natDigits.simps) (simp add: mathInt_def digitChar_digit)
  next
    case False
    with 1 have "mathInt (natDigits (n div 10)) = int (n div 10)"
      by simp
    with False show ?thesis
      by (subst natDigits.simps) (simp add: mathInt_snoc digitChar_digit zdiv_int zmod_int)
  qed
qed

lemma isDigit_plain: "isDigit c \<Longrightarrow> \<not> isWhiteSpace c \<and> c \<noteq> CHR ''+'' \<and> c \<noteq> CHR ''-''"
  by (auto simp: isDigit_def isWhiteSpace_def)

lemma takeWhile_digits:
  "list_all isDigit z \<Longrightarrow> rest = [] \<or> \<not> isDigit (hd rest) \<Longrightarrow> takeWhile isDigit (z @ rest) = z"
  by (cases rest) (auto simp: list_all_iff takeWhile_append2 intro: takeWhile_eq_all_conv [THEN iffD2])

lemma parseInt_digits:
  assumes "z \<noteq> []" and "list_all isDigit z" and "rest = [] \<or> \<not> isDigit (hd rest)"
  shows "parseInt (z @ rest) = toNumber (mathInt z)"
    and "parseInt (CHR ''-'' # z @ rest) = toNumber (- mathInt z)"
proof -
  obtain c cs where z: "z = c # cs"
    using assms(1) by (cases z) auto
  then have c: "isDigit c"
    using assms(2) by simp
  have tw: "takeWhile isDigit (z @ rest) = z"
    using assms(2,3) by (rule takeWhile_digits)
  show "parseInt (z @ rest) = toNumber (mathInt z)"
    using tw assms(1) isDigit_plain [OF c] by (simp add: parseInt_def trimStart_def z)
  show "parseInt (CHR ''-'' # z @ rest) = toNumber (- mathInt z)"
    using tw assms(1) by (simp add: parseInt_def trimStart_def isWhiteSpace_def)
qed

lemma toNumber_safe: "\<bar>i\<bar> < 2 ^ 53 \<Longrightarrow> toNumber i = Num i"
  by (auto simp: toNumber_def roundToDouble_def)

lemma parseInt_numberToString:
  assumes "\<bar>i\<bar> < 2 ^ 53" and "rest = [] \<or> \<not> isDigit (hd rest)"
  shows "parseInt (numberToString i @ rest) = Num i"
proof (cases "i < 0")
  case True
  then have "nat (- i) < 2 ^ 53"
    using assms(1) by (simp add: nat_less_iff)
  with True have "numberToString i = CHR ''-'' # natDigits (nat (- i))"
    by (simp only: numberToString_def natToString_def if_True)
  then show ?thesis
    using True parseInt_digits(2) [OF _ _ assms(2), of "natDigits (nat (- i))"] natDigits_digits
      toNumber_safe [OF assms(1)]
    by (simp add: mathInt_natDigits)
next
  case False
  then have "nat i < 2 ^ 53"
    using assms(1) by (simp add: nat_less_iff)
  with False have "numberToString i = natDigits (nat i)"
    by (simp only: numberToString_def natToString_def if_True if_False)
  then show ?thesis
    using False parseInt_digits(1) [OF _ _ assms(2), of "natDigits (nat i)"] natDigits_digits
      toNumber_safe [OF assms(1)]
    by (simp add: mathInt_natDigits)
qed

lemma parseInt_not_numeric:
  assumes "v = [] \<or> (\<not> isWhiteSpace (hd v) \<and> \<not> isDigit (hd v) \<and> hd v \<noteq> CHR ''+'' \<and> hd v \<noteq> CHR ''-'')"
  shows "parseInt v = NaN"
  using assms by (cases v) (auto simp: parseInt_def trimStart_def)

lemma parseInteger_Inr:
  "parseInteger v key opts = Inr n \<longleftrightarrow>
     parseInt v = Num n \<and> (allowZero opts \<or> n \<noteq> 0)
     \<and> (case minimum opts of None \<Rightarrow> True | Some mn \<Rightarrow> mn \<le> n)
     \<and> (case maximum opts of None \<Rightarrow> True | Some mx \<Rightarrow> n \<le> mx)"
  by (auto simp: parseInteger_def Let_def split: jsnumber.splits option.splits)

text \<open>
  C4 (amended). \<^verbatim>\<open>parseInteger\<close> reads the base-10 integer at the start of its input: an
  optional sign and the digits that follow, after leading white space, whatever comes
  behind the digits. It fails when the input does not start that way (non-numeric input
  such as \<^verbatim>\<open>abc\<close>), when the number read is not finite, when it is zero and \<open>allowZero\<close> is
  false, and when it lies outside the inclusive bounds; otherwise it returns the number.
  The decimal notation of an integer below \<open>2^53\<close> is read back as that integer, also
  when other text follows it: fractional input such as \<^verbatim>\<open>3.5\<close> is accepted as \<open>3\<close>.
\<close>

theorem parseInteger_contract:
  "(parseInteger v key opts = Inr n \<longleftrightarrow>
      parseInt v = Num n \<and> (allowZero opts \<or> n \<noteq> 0)
      \<and> (case minimum opts of None \<Rightarrow> True | Some mn \<Rightarrow> mn \<le> n)
      \<and> (case maximum opts of None \<Rightarrow> True | Some mx \<Rightarrow> n \<le> mx))
   \<and> (\<not> isFinite (parseInt v) \<longrightarrow> parseInteger v key opts = Inl (InvalidInteger key))
   \<and> (parseInt v = Num 0 \<and> \<not> allowZero opts \<longrightarrow> parseInteger v key opts = Inl (ZeroNotAllowed key))
   \<and> (parseInt v = Num n \<and> minimum opts = Some mn \<and> n < mn \<longrightarrow> isl (parseInteger v key opts))
   \<and> (parseInt v = Num n \<and> maximum opts = Some mx \<and> mx < n \<longrightarrow> isl (parseInteger v key opts))
   \<and> (v = [] \<or> (\<not> isWhiteSpace (hd v) \<and> \<not> isDigit (hd v) \<and> hd v \<noteq> CHR ''+'' \<and> hd v \<noteq> CHR ''-'')
        \<longrightarrow> parseInteger v key opts = Inl (InvalidInteger key))
   \<and> (\<bar>i\<bar> < 2 ^ 53 \<and> (rest = [] \<or> \<not> isDigit (hd rest)) \<longrightarrow>
        parseInt (numberToString i @ rest) = Num i)
   \<and> parseInteger ''abc'' key opts = Inl (InvalidInteger key)
   \<and> parseInteger ''3.5'' key intDefaults = Inr 3"
proof -
  have invalid: "\<not> isFinite (parseInt v) \<Longrightarrow> parseInteger v key opts = Inl (InvalidInteger key)"
    by (auto simp: parseInteger_def isFinite_def split: jsnumber.splits)
  have zero: "parseInt v = Num 0 \<Longrightarrow> \<not> allowZero opts \<Longrightarrow>
      parseInteger v key opts = Inl (ZeroNotAllowed key)"
    by (simp add: parseInteger_def)
  have low: "parseInt v = Num n \<Longrightarrow> minimum opts = Some mn \<Longrightarrow> n < mn \<Longrightarrow> isl (parseInteger v key opts)"
    by (simp add: parseInteger_def Let_def)
  have high: "parseInt v = Num n \<Longrightarrow> maximum opts = Some mx \<Longrightarrow> mx < n \<Longrightarrow> isl (parseInteger v key opts)"
    by (simp add: parseInteger_def Let_def split: option.splits)
  have letters: "parseInteger v key opts = Inl (InvalidInteger key)"
    if "v = [] \<or> (\<not> isWhiteSpace (hd v) \<and> \<not> isDigit (hd v) \<and> hd v \<noteq> CHR ''+'' \<and> hd v \<noteq> CHR ''-'')"
    using parseInt_not_numeric [OF that] by (simp add: parseInteger_def)
  have abc: "parseInteger ''abc'' key opts = Inl (InvalidInteger key)"
    using parseInt_not_numeric [of "''abc''"]
    by (simp add: parseInteger_def isWhiteSpace_def isDigit_def)
  have frac: "parseInteger ''3.5'' key intDefaults = Inr 3"
    by (simp add: evaluation)
  show ?thesis
    using parseInteger_Inr [of v key opts n] invalid zero low high letters
      parseInt_numberToString [of i rest] abc frac
    by blast
qed

theorem parseInteger_contract_witness:
  "parseInteger ''8080'' ''PORT'' (intDefaults\<lparr>minimum := Some 1, maximum := Some 65535\<rparr>) = Inr 8080
   \<and> parseInteger ''NaN'' ''PORT'' intDefaults = Inl (InvalidInteger ''PORT'')
   \<and> parseInteger ''0'' ''K'' (intDefaults\<lparr>allowZero := False\<rparr>) = Inl (ZeroNotAllowed ''K'')
   \<and> isl (parseInteger ''0'' ''PORT'' (intDefaults\<lparr>minimum := Some 1, maximum := Some 65535\<rparr>))
   \<and> isl (parseInteger ''65536'' ''PORT'' (intDefaults\<lparr>minimum := Some 1, maximum := Some 65535\<rparr>))
   \<and> parseInt ''12abc'' = Num 12"
proof -
  let ?port = "intDefaults\<lparr>minimum := Some 1, maximum := Some 65535\<rparr>"
  have p: "parseInt ''8080'' = Num 8080" "parseInt ''0'' = Num 0" "parseInt ''65536'' = Num 65536"
    "parseInt ''NaN'' = NaN" "numberToString 12 = ''12''"
    by (simp_all add: evaluation)
  have a: "parseInteger ''8080'' ''PORT'' ?port = Inr 8080"
    using parseInteger_contract [of "''8080''" "''PORT''" ?port 8080] p(1)
    by (simp add: intDefaults_def)
  have b: "parseInteger ''NaN'' ''PORT'' intDefaults = Inl (InvalidInteger ''PORT'')"
    using parseInteger_contract [of "''NaN''" "''PORT''" intDefaults] p(4)
    by (simp add: isFinite_def)
  have c: "parseInteger ''0'' ''K'' (intDefaults\<lparr>allowZero := False\<rparr>) = Inl (ZeroNotAllowed ''K'')"
    using parseInteger_contract [of "''0''" "''K''" "intDefaults\<lparr>allowZero := False\<rparr>"] p(2)
    by simp
  have d: "isl (parseInteger ''0'' ''PORT'' ?port)"
    using parseInteger_contract [of "''0''" "''PORT''" ?port 0 1] p(2)
    by (simp add: intDefaults_def)
  have e: "isl (parseInteger ''65536'' ''PORT'' ?port)"
    using parseInteger_contract [of "''65536''" "''PORT''" ?port 65536 _ 65535] p(3)
    by (simp add: intDefaults_def)
  have f: "parseInt ''12abc'' = Num 12"
    using parseInteger_contract [of _ _ _ _ _ _ 12 "''abc''"] p(5)
    by (simp add: isDigit_def)
  show ?thesis
    using a b c d e f by blast
qed

theorem parseInteger_fraction_counterexample:
  "parseInteger ''3.5'' ''PUBLIC_MAX_UPLOAD_SIZE'' (intDefaults\<lparr>minimum := Some 1\<rparr>) = Inr 3"
  by (simp add: evaluation)

subsection \<open>URLs\<close>

lemma strip_end_keeps_head:
  assumes "\<not> P c"
  shows "rev (dropWhile P (rev (c # t))) = c # rev (dropWhile P (rev t))"
  using assms by (simp add: dropWhile_append3)

lemma urlInput_slash: "\<exists>r. urlInput (CHR ''/'' # t) = CHR ''/'' # r"
proof -
  have keep: "\<not> isC0OrSpace CHR ''/''"
    by (simp add: isC0OrSpace_def)
  have lead: "dropWhile isC0OrSpace (CHR ''/'' # t) = CHR ''/'' # t"
    using keep by simp
  have trail: "rev (dropWhile isC0OrSpace (rev (CHR ''/'' # t)))
      = CHR ''/'' # rev (dropWhile isC0OrSpace (rev t))"
    using keep by (rule strip_end_keeps_head)
  show ?thesis
    unfolding urlInput_def lead trail by (simp add: isTabOrNewline_def)
qed

lemma parseURL_slash: "startsWith s ''/'' \<Longrightarrow> parseURL tail s = None"
proof -
  assume "startsWith s ''/''"
  then obtain t where "s = CHR ''/'' # t"
    by (cases s) (auto simp: startsWith_def)
  moreover obtain r where "urlInput (CHR ''/'' # t) = CHR ''/'' # r"
    using urlInput_slash by blast
  ultimately show ?thesis
    by (simp add: parseURL_def schemeStartState_def isAsciiAlpha_def isAsciiUpper_def
        isAsciiLower_def)
qed

lemma parseURL_empty: "parseURL tail [] = None"
  by (simp add: parseURL_def urlInput_def schemeStartState_def)

lemma normaliseUrl_cases:
  "normaliseUrl tail v key wl =
     (case parseURL tail (trim v) of
        Some u \<Rightarrow>
          if (case wl of None \<Rightarrow> True | Some l \<Rightarrow> protocol u \<in> set l)
          then Inr (stripTrailingSlash (href u))
          else Inl (InvalidUrl key)
      | None \<Rightarrow>
          if startsWith (trim v) ''/'' then Inr (stripTrailingSlash (trim v))
          else Inl (InvalidUrl key))"
proof (cases "parseURL tail (trim v)")
  case None
  then show ?thesis
    by (simp add: normaliseUrl_def tryAbsolute_def)
next
  case (Some u)
  then have "\<not> startsWith (trim v) ''/''"
    using parseURL_slash by fastforce
  with Some show ?thesis
    by (simp add: normaliseUrl_def tryAbsolute_def split: option.splits)
qed

lemma normaliseUrl_trimmed: "normaliseUrl tail (trim v) key wl = normaliseUrl tail v key wl"
  by (simp add: normaliseUrl_cases trim_idem split: option.splits)

lemma readEnv_default_present:
  assumes "E key = Some (JStr v)" and "trim v \<noteq> []"
  shows "readEnv E key (readDefaults\<lparr>defaultValue := d\<rparr>) = Inr (Some (trim v))"
  using assms by (simp add: readEnv_def lookupEnv_def objectPrototype_def readDefaults_def)

lemma readEnv_default_absent:
  assumes "isAbsent E key"
  shows "readEnv E key (readDefaults\<lparr>defaultValue := Some d\<rparr>) = Inr (Some d)"
  using assms by (simp add: readEnv_absent resolveMissing_def readDefaults_def)

text \<open>A WebSocket URL that \<^verbatim>\<open>normaliseUrl\<close> rejects makes construction fail.\<close>

lemma ws_rejected:
  assumes E: "E ''PUBLIC_WS_URL'' = Some (JStr v)" and v: "trim v \<noteq> []"
    and bad: "isl (normaliseUrl tail v ''PUBLIC_WS_URL'' (Some [''ws:'', ''wss:'']))"
  shows "isl (buildServerConfig tail root E)"
proof (rule not_Inr_isl)
  fix cfg
  show "buildServerConfig tail root E \<noteq> Inr cfg"
  proof
    assume "buildServerConfig tail root E = Inr cfg"
    from buildServerConfig_steps [OF this] obtain w where
      "readEnv E ''PUBLIC_WS_URL''
         (readDefaults\<lparr>defaultValue :=
            Some (''ws://localhost:'' @ numberToString (port (server cfg)) @ ''/ws'')\<rparr>)
       = Inr (Some w)"
      and "normaliseUrl tail w ''PUBLIC_WS_URL'' (Some [''ws:'', ''wss:'']) = Inr (wsUrl (public cfg))"
      by blast
    then have "normaliseUrl tail (trim v) ''PUBLIC_WS_URL'' (Some [''ws:'', ''wss:''])
        = Inr (wsUrl (public cfg))"
      by (simp add: readEnv_default_present [of E "''PUBLIC_WS_URL''" v, OF E v])
    with bad show False
      by (simp add: normaliseUrl_trimmed)
  qed
qed

text \<open>
  C10. When the value parses as an absolute URL whose scheme is outside the whitelist,
  the protocol error thrown inside the \<^verbatim>\<open>try\<close> block is caught; such a value does not
  begin with a slash, so \<^verbatim>\<open>normaliseUrl\<close> raises the generic error "must be a valid absolute
  URL or start with '/'". The value is rejected, and so is the construction that reads
  it from \<^verbatim>\<open>PUBLIC_WS_URL\<close>, but the error names the wrong constraint: \<^verbatim>\<open>normaliseUrl\<close> never
  raises the protocol error.
\<close>

theorem normaliseUrl_protocol_error_masked:
  "(parseURL tail (trim v) = Some u \<and> protocol u \<notin> set wl \<longrightarrow>
      tryAbsolute tail (trim v) key (Some wl) = Inl (ProtocolNotAllowed key wl)
      \<and> \<not> startsWith (trim v) ''/''
      \<and> normaliseUrl tail v key (Some wl) = Inl (InvalidUrl key))
   \<and> normaliseUrl tail v key whitelist \<noteq> Inl (ProtocolNotAllowed k l)
   \<and> (E ''PUBLIC_WS_URL'' = Some (JStr v) \<and> parseURL tail (trim v) = Some u
        \<and> protocol u \<notin> {''ws:'', ''wss:''} \<longrightarrow> isl (buildServerConfig tail root E))"
proof -
  have masked: "tryAbsolute tail (trim v) key (Some wl) = Inl (ProtocolNotAllowed key wl)
      \<and> \<not> startsWith (trim v) ''/''
      \<and> normaliseUrl tail v key (Some wl) = Inl (InvalidUrl key)"
    if "parseURL tail (trim v) = Some u" and "protocol u \<notin> set wl"
  proof -
    have "\<not> startsWith (trim v) ''/''"
      using that(1) parseURL_slash by fastforce
    then show ?thesis
      using that by (simp add: normaliseUrl_cases tryAbsolute_def)
  qed
  have never: "normaliseUrl tail v key whitelist \<noteq> Inl (ProtocolNotAllowed k l)"
    by (simp add: normaliseUrl_cases split: option.splits)
  have build: "isl (buildServerConfig tail root E)"
    if E: "E ''PUBLIC_WS_URL'' = Some (JStr v)" and u: "parseURL tail (trim v) = Some u"
      and p: "protocol u \<notin> {''ws:'', ''wss:''}"
  proof -
    have "trim v \<noteq> []"
      using u parseURL_empty by fastforce
    moreover have "isl (normaliseUrl tail v ''PUBLIC_WS_URL'' (Some [''ws:'', ''wss:'']))"
      using u p by (simp add: normaliseUrl_cases)
    ultimately show ?thesis
      using E by (rule ws_rejected [rotated])
  qed
  show ?thesis
    using masked never build by blast
qed

lemma parse_http_example:
  "parseURL authorityTail (trim ''http://example.com'')
     = Some \<lparr>protocol = ''http:'', href = ''http://example.com/''\<rparr>"
  by (simp add: evaluation plainHost.simps)

theorem normaliseUrl_protocol_error_masked_witness:
  "tryAbsolute authorityTail (trim ''http://example.com'') ''PUBLIC_WS_URL'' (Some [''ws:'', ''wss:''])
     = Inl (ProtocolNotAllowed ''PUBLIC_WS_URL'' [''ws:'', ''wss:''])
   \<and> normaliseUrl authorityTail ''http://example.com'' ''PUBLIC_WS_URL'' (Some [''ws:'', ''wss:''])
     = Inl (InvalidUrl ''PUBLIC_WS_URL'')
   \<and> isl (buildServerConfig authorityTail ''/srv/app''
            (townEnv(''PUBLIC_WS_URL'' \<mapsto> JStr ''http://example.com'')))"
  using normaliseUrl_protocol_error_masked
      [of authorityTail "''http://example.com''" "\<lparr>protocol = ''http:'', href = ''http://example.com/''\<rparr>"
          "[''ws:'', ''wss:'']" "''PUBLIC_WS_URL''" _ _ _
          "townEnv(''PUBLIC_WS_URL'' \<mapsto> JStr ''http://example.com'')" "''/srv/app''"]
    parse_http_example
  by simp

lemma normaliseUrl_literal:
  assumes "trim v = v" and "schemeStartState (urlInput v) = Some (scheme, remaining)"
    and "tail scheme remaining = Some t"
    and "case wl of None \<Rightarrow> True | Some l \<Rightarrow> scheme @ '':'' \<in> set l"
  shows "normaliseUrl tail v key wl = Inr (stripTrailingSlash (scheme @ '':'' @ t))"
  using assms by (simp add: normaliseUrl_cases parseURL_def split: option.splits)

text \<open>
  C6. A \<^verbatim>\<open>PUBLIC_WS_URL\<close> that is an absolute URL with a scheme outside \<^verbatim>\<open>ws:\<close> and \<^verbatim>\<open>wss:\<close>
  makes construction fail, as \<^verbatim>\<open>http://example.com\<close> does (whatever the runtime makes
  of the part after the scheme); \<^verbatim>\<open>PUBLIC_WS_URL=wss://example.com/\<close>, which the URL parser
  leaves as it is, yields \<open>public.wsUrl\<close> equal to \<^verbatim>\<open>wss://example.com\<close>, the trailing
  slash stripped.
\<close>

theorem wsUrl_whitelist:
  "(E ''PUBLIC_WS_URL'' = Some (JStr v) \<and> parseURL tail (trim v) = Some u
      \<and> protocol u \<noteq> ''ws:'' \<and> protocol u \<noteq> ''wss:'' \<longrightarrow> isl (buildServerConfig tail root E))
   \<and> (E ''PUBLIC_WS_URL'' = Some (JStr ''http://example.com'') \<longrightarrow>
        isl (buildServerConfig tail root E))
   \<and> (E ''PUBLIC_WS_URL'' = Some (JStr ''wss://example.com/'')
        \<and> tail ''wss'' ''//example.com/'' = Some ''//example.com/''
        \<and> buildServerConfig tail root E = Inr cfg \<longrightarrow>
        wsUrl (public cfg) = ''wss://example.com'')"
proof -
  let ?wl = "Some [''ws:'', ''wss:'']"
  have outside: "isl (buildServerConfig tail root E)"
    if E: "E ''PUBLIC_WS_URL'' = Some (JStr v)" and u: "parseURL tail (trim v) = Some u"
      and p: "protocol u \<noteq> ''ws:''" "protocol u \<noteq> ''wss:''"
  proof -
    have "trim v \<noteq> []"
      using u parseURL_empty by fastforce
    moreover have "isl (normaliseUrl tail v ''PUBLIC_WS_URL'' ?wl)"
      using u p by (simp add: normaliseUrl_cases)
    ultimately show ?thesis
      using E by (rule ws_rejected [rotated])
  qed
  have http: "isl (buildServerConfig tail root E)"
    if E: "E ''PUBLIC_WS_URL'' = Some (JStr ''http://example.com'')"
  proof -
    have scheme: "schemeStartState (urlInput (trim ''http://example.com''))
        = Some (''http'', ''//example.com'')"
      by (simp add: evaluation)
    have "trim ''http://example.com'' \<noteq> []"
      by (simp add: evaluation)
    moreover have "isl (normaliseUrl tail ''http://example.com'' ''PUBLIC_WS_URL'' ?wl)"
      by (cases "tail ''http'' ''//example.com''")
        (simp_all add: normaliseUrl_cases parseURL_def scheme, simp_all add: evaluation)
    ultimately show ?thesis
      using E by (rule ws_rejected [rotated])
  qed
  have wss: "wsUrl (public cfg) = ''wss://example.com''"
    if E: "E ''PUBLIC_WS_URL'' = Some (JStr ''wss://example.com/'')"
      and t: "tail ''wss'' ''//example.com/'' = Some ''//example.com/''"
      and ok: "buildServerConfig tail root E = Inr cfg"
  proof -
    have v: "trim ''wss://example.com/'' = ''wss://example.com/''"
      by (simp add: evaluation)
    from buildServerConfig_steps [OF ok] obtain w where
      "readEnv E ''PUBLIC_WS_URL''
         (readDefaults\<lparr>defaultValue :=
            Some (''ws://localhost:'' @ numberToString (port (server cfg)) @ ''/ws'')\<rparr>)
       = Inr (Some w)"
      and "normaliseUrl tail w ''PUBLIC_WS_URL'' ?wl = Inr (wsUrl (public cfg))"
      by blast
    then have "normaliseUrl tail ''wss://example.com/'' ''PUBLIC_WS_URL'' ?wl
        = Inr (wsUrl (public cfg))"
      using readEnv_default_present [of E "''PUBLIC_WS_URL''" "''wss://example.com/''", OF E] v
      by simp
    moreover have "normaliseUrl tail ''wss://example.com/'' ''PUBLIC_WS_URL'' ?wl
        = Inr (stripTrailingSlash (''wss'' @ '':'' @ ''//example.com/''))"
      using v t by (intro normaliseUrl_literal) (simp_all add: evaluation)
    ultimately show ?thesis
      by (simp add: stripTrailingSlash_def)
  qed
  show ?thesis
    using outside http wss by blast
qed

theorem wsUrl_whitelist_witness:
  "isl (buildServerConfig authorityTail ''/srv/app'' (townEnv(''PUBLIC_WS_URL'' \<mapsto> JStr ''http://example.com'')))
   \<and> wsUrl (public (townConfig 3000 ''wss://example.com''
                      (townEnv(''PUBLIC_WS_URL'' \<mapsto> JStr ''wss://example.com/''))))
       = ''wss://example.com''"
proof -
  let ?http = "townEnv(''PUBLIC_WS_URL'' \<mapsto> JStr ''http://example.com'')"
  let ?wss = "townEnv(''PUBLIC_WS_URL'' \<mapsto> JStr ''wss://example.com/'')"
  have t: "authorityTail ''wss'' ''//example.com/'' = Some ''//example.com/''"
    by (simp add: evaluation plainHost.simps)
  have "isl (buildServerConfig authorityTail ''/srv/app'' ?http)"
    using wsUrl_whitelist
      [of ?http "''http://example.com''" authorityTail
          "\<lparr>protocol = ''http:'', href = ''http://example.com/''\<rparr>" "''/srv/app''"]
      parse_http_example
    by simp
  moreover have "wsUrl (public (townConfig 3000 ''wss://example.com'' ?wss)) = ''wss://example.com''"
    using wsUrl_whitelist [of ?wss _ authorityTail _ "''/srv/app''" "townConfig 3000 ''wss://example.com'' ?wss"]
      t town_config_wss
    by simp
  ultimately show ?thesis
    by blast
qed

text \<open>
  C5. \<^verbatim>\<open>PORT=0\<close>, \<^verbatim>\<open>PORT=65536\<close> and \<^verbatim>\<open>PORT=abc\<close> make construction fail. With \<^verbatim>\<open>PORT=8080\<close>
  the port is 8080, and with \<^verbatim>\<open>PORT\<close> unset it is 3000. When \<^verbatim>\<open>PUBLIC_WS_URL\<close> is unset,
  \<open>public.wsUrl\<close> is what \<^verbatim>\<open>normaliseUrl\<close> returns for \<^verbatim>\<open>ws://localhost:<port>/ws\<close> with the
  resolved port: \<^verbatim>\<open>ws://localhost:8080/ws\<close> and \<^verbatim>\<open>ws://localhost:3000/ws\<close> in the two cases,
  the URL parser leaving these URLs as they are.
\<close>

theorem port_resolution:
  "(E ''PORT'' = Some (JStr p) \<and> (p = ''0'' \<or> p = ''65536'' \<or> p = ''abc'') \<longrightarrow>
      isl (buildServerConfig tail root E))
   \<and> (E ''PORT'' = Some (JStr ''8080'') \<and> buildServerConfig tail root E = Inr cfg \<longrightarrow>
        port (server cfg) = 8080)
   \<and> (isAbsent E ''PORT'' \<and> buildServerConfig tail root E = Inr cfg \<longrightarrow>
        port (server cfg) = 3000)
   \<and> (isAbsent E ''PUBLIC_WS_URL'' \<and> buildServerConfig tail root E = Inr cfg \<longrightarrow>
        normaliseUrl tail (''ws://localhost:'' @ numberToString (port (server cfg)) @ ''/ws'')
          ''PUBLIC_WS_URL'' (Some [''ws:'', ''wss:'']) = Inr (wsUrl (public cfg)))
   \<and> (E ''PORT'' = Some (JStr ''8080'') \<and> isAbsent E ''PUBLIC_WS_URL''
        \<and> tail ''ws'' ''//localhost:8080/ws'' = Some ''//localhost:8080/ws''
        \<and> buildServerConfig tail root E = Inr cfg \<longrightarrow>
        wsUrl (public cfg) = ''ws://localhost:8080/ws'')
   \<and> (isAbsent E ''PORT'' \<and> isAbsent E ''PUBLIC_WS_URL''
        \<and> tail ''ws'' ''//localhost:3000/ws'' = Some ''//localhost:3000/ws''
        \<and> buildServerConfig tail root E = Inr cfg \<longrightarrow>
        wsUrl (public cfg) = ''ws://localhost:3000/ws'')"
proof -
  let ?opts = "intDefaults\<lparr>minimum := Some 1, maximum := Some 65535\<rparr>"
  let ?wl = "Some [''ws:'', ''wss:'']"
  have step: "\<exists>pv. readEnv E ''PORT'' (readDefaults\<lparr>defaultValue := Some ''3000''\<rparr>) = Inr pv
      \<and> parseInteger (toStringArg pv) ''PORT'' ?opts = Inr (port (server c))"
    if "buildServerConfig tail root E = Inr c" for c
    using buildServerConfig_steps [OF that] by blast
  have set: "parseInteger p' ''PORT'' ?opts = Inr (port (server c))"
    if "E ''PORT'' = Some (JStr p')" and "trim p' = p'" and "p' \<noteq> []"
      and "buildServerConfig tail root E = Inr c" for p' c
    using step [OF that(4)] readEnv_default_present [of E "''PORT''" p'] that(1-3)
    by (auto simp: toStringArg_def)
  have bad: "isl (buildServerConfig tail root E)"
    if E: "E ''PORT'' = Some (JStr p)" and p: "p = ''0'' \<or> p = ''65536'' \<or> p = ''abc''"
  proof (rule not_Inr_isl)
    fix c
    have "trim p = p \<and> p \<noteq> [] \<and> isl (parseInteger p ''PORT'' ?opts)"
      using p by (auto simp: evaluation)
    then show "buildServerConfig tail root E \<noteq> Inr c"
      using set [OF E] by auto
  qed
  have p8080: "port (server cfg) = 8080"
    if E: "E ''PORT'' = Some (JStr ''8080'')" and ok: "buildServerConfig tail root E = Inr cfg"
  proof -
    have "trim ''8080'' = ''8080''" "parseInteger ''8080'' ''PORT'' ?opts = Inr 8080"
      by (simp_all add: evaluation)
    then show ?thesis
      using set [OF E _ _ ok] by simp
  qed
  have p3000: "port (server cfg) = 3000"
    if E: "isAbsent E ''PORT''" and ok: "buildServerConfig tail root E = Inr cfg"
  proof -
    have "parseInteger ''3000'' ''PORT'' ?opts = Inr 3000"
      by (simp add: evaluation)
    then show ?thesis
      using step [OF ok] readEnv_default_absent [OF E] by (auto simp: toStringArg_def)
  qed
  have ws: "normaliseUrl tail (''ws://localhost:'' @ numberToString (port (server cfg)) @ ''/ws'')
          ''PUBLIC_WS_URL'' ?wl = Inr (wsUrl (public cfg))"
    if E: "isAbsent E ''PUBLIC_WS_URL''" and ok: "buildServerConfig tail root E = Inr cfg"
  proof -
    from buildServerConfig_steps [OF ok] obtain w where
      "readEnv E ''PUBLIC_WS_URL''
         (readDefaults\<lparr>defaultValue :=
            Some (''ws://localhost:'' @ numberToString (port (server cfg)) @ ''/ws'')\<rparr>)
       = Inr (Some w)"
      and "normaliseUrl tail w ''PUBLIC_WS_URL'' ?wl = Inr (wsUrl (public cfg))"
      by blast
    then show ?thesis
      by (simp add: readEnv_default_absent [OF E])
  qed
  have ws8080: "wsUrl (public cfg) = ''ws://localhost:8080/ws''"
    if "E ''PORT'' = Some (JStr ''8080'')" and "isAbsent E ''PUBLIC_WS_URL''"
      and t: "tail ''ws'' ''//localhost:8080/ws'' = Some ''//localhost:8080/ws''"
      and "buildServerConfig tail root E = Inr cfg"
  proof -
    have "normaliseUrl tail ''ws://localhost:8080/ws'' ''PUBLIC_WS_URL'' ?wl
        = Inr (stripTrailingSlash (''ws'' @ '':'' @ ''//localhost:8080/ws''))"
      using t by (intro normaliseUrl_literal) (simp_all add: evaluation)
    then show ?thesis
      using ws [OF that(2,4)] p8080 [OF that(1,4)]
      by (simp add: numberToString_8080 stripTrailingSlash_def)
  qed
  have ws3000: "wsUrl (public cfg) = ''ws://localhost:3000/ws''"
    if "isAbsent E ''PORT''" and "isAbsent E ''PUBLIC_WS_URL''"
      and t: "tail ''ws'' ''//localhost:3000/ws'' = Some ''//localhost:3000/ws''"
      and "buildServerConfig tail root E = Inr cfg"
  proof -
    have "normaliseUrl tail ''ws://localhost:3000/ws'' ''PUBLIC_WS_URL'' ?wl
        = Inr (stripTrailingSlash (''ws'' @ '':'' @ ''//localhost:3000/ws''))"
      using t by (intro normaliseUrl_literal) (simp_all add: evaluation)
    then show ?thesis
      using ws [OF that(2,4)] p3000 [OF that(1,4)]
      by (simp add: numberToString_3000 stripTrailingSlash_def)
  qed
  show ?thesis
    using bad p8080 p3000 ws ws8080 ws3000 by blast
qed

theorem port_resolution_witness:
  "isl (buildServerConfig authorityTail ''/srv/app'' (townEnv(''PORT'' \<mapsto> JStr ''65536'')))
   \<and> port (server (townConfig 8080 ''ws://localhost:8080/ws'' (townEnv(''PORT'' \<mapsto> JStr ''8080''))))
       = 8080
   \<and> wsUrl (public (townConfig 8080 ''ws://localhost:8080/ws'' (townEnv(''PORT'' \<mapsto> JStr ''8080''))))
       = ''ws://localhost:8080/ws''
   \<and> port (server (townConfig 3000 ''ws://localhost:3000/ws'' townEnv)) = 3000
   \<and> wsUrl (public (townConfig 3000 ''ws://localhost:3000/ws'' townEnv)) = ''ws://localhost:3000/ws''"
proof -
  let ?big = "townEnv(''PORT'' \<mapsto> JStr ''65536'')"
  let ?E = "townEnv(''PORT'' \<mapsto> JStr ''8080'')"
  have t: "authorityTail ''ws'' ''//localhost:8080/ws'' = Some ''//localhost:8080/ws''"
    "authorityTail ''ws'' ''//localhost:3000/ws'' = Some ''//localhost:3000/ws''"
    by (simp_all add: evaluation plainHost.simps)
  have absent: "isAbsent ?E ''PUBLIC_WS_URL''" "isAbsent townEnv ''PUBLIC_WS_URL''"
    "isAbsent townEnv ''PORT''"
    by (simp_all add: isAbsent_def lookupEnv_def objectPrototype_def townEnv_def)
  have "isl (buildServerConfig authorityTail ''/srv/app'' ?big)"
    using port_resolution [of ?big "''65536''" authorityTail "''/srv/app''"] by simp
  moreover have "port (server (townConfig 8080 ''ws://localhost:8080/ws'' ?E)) = 8080
      \<and> wsUrl (public (townConfig 8080 ''ws://localhost:8080/ws'' ?E)) = ''ws://localhost:8080/ws''"
    using port_resolution [of ?E _ authorityTail "''/srv/app''"
        "townConfig 8080 ''ws://localhost:8080/ws'' ?E"] t absent town_config_8080
    by simp
  moreover have "port (server (townConfig 3000 ''ws://localhost:3000/ws'' townEnv)) = 3000
      \<and> wsUrl (public (townConfig 3000 ''ws://localhost:3000/ws'' townEnv)) = ''ws://localhost:3000/ws''"
    using port_resolution [of townEnv _ authorityTail "''/srv/app''"
        "townConfig 3000 ''ws://localhost:3000/ws'' townEnv"] t absent town_config
    by simp
  ultimately show ?thesis
    by blast
qed







subsection \<open>The public environment\<close>

lemma buildPublicEnv_props:
  "props (buildPublicEnv E overrides) k =
     (case overrides k of
        Some v \<Rightarrow> Some (JStr (coerceString v))
      | None \<Rightarrow>
          if startsWith k ''PUBLIC_'' then map_option (\<lambda>v. JStr (coerceString v)) (E k)
          else None)"
  by (cases "overrides k"; cases "E k")
    (auto simp: buildPublicEnv_def map_add_def coerceString_def split: jsvalue.splits)

text \<open>
  C7. \<open>public.env\<close> holds every raw variable whose name starts with \<^verbatim>\<open>PUBLIC_\<close>, its value
  coerced to a string (\<^verbatim>\<open>undefined\<close> and \<^verbatim>\<open>null\<close> to the empty string), overlaid with the
  overrides, which win over a raw variable of the same name; the result is frozen and all
  its values are strings. In a configuration the overrides are the three public URLs and
  the maximal upload size printed as a string, so \<^verbatim>\<open>PUBLIC_MAX_UPLOAD_SIZE\<close> is a string
  there while \<open>public.maxUploadSize\<close> is the number.
\<close>

theorem publicEnv_contract:
  "props (buildPublicEnv E overrides) k =
     (case overrides k of
        Some v \<Rightarrow> Some (JStr (coerceString v))
      | None \<Rightarrow>
          if startsWith k ''PUBLIC_'' then map_option (\<lambda>v. JStr (coerceString v)) (E k)
          else None)
   \<and> coerceString JUndefined = [] \<and> coerceString JNull = [] \<and> coerceString (JStr s) = s
   \<and> frozen (buildPublicEnv E overrides)
   \<and> (props (buildPublicEnv E overrides) k = Some x \<longrightarrow> (\<exists>t. x = JStr t))
   \<and> (buildServerConfig tail root E = Inr cfg \<longrightarrow>
        frozen (env (public cfg))
        \<and> (props (env (public cfg)) k = Some x \<longrightarrow> (\<exists>t. x = JStr t))
        \<and> props (env (public cfg)) ''PUBLIC_ASSETS_URL'' = Some (JStr (assetsUrl (public cfg)))
        \<and> props (env (public cfg)) ''PUBLIC_API_URL'' = Some (JStr (apiUrl (public cfg)))
        \<and> props (env (public cfg)) ''PUBLIC_WS_URL'' = Some (JStr (wsUrl (public cfg)))
        \<and> props (env (public cfg)) ''PUBLIC_MAX_UPLOAD_SIZE''
            = Some (JStr (numberToString (maxUploadSize (public cfg))))
        \<and> (k \<notin> {''PUBLIC_ASSETS_URL'', ''PUBLIC_API_URL'', ''PUBLIC_WS_URL'', ''PUBLIC_MAX_UPLOAD_SIZE''}
             \<longrightarrow> props (env (public cfg)) k =
                  (if startsWith k ''PUBLIC_'' then map_option (\<lambda>v. JStr (coerceString v)) (E k)
                   else None)))"
proof -
  have strings: "props (buildPublicEnv E' ov) k = Some x \<Longrightarrow> \<exists>t. x = JStr t" for E' ov
    by (auto simp: buildPublicEnv_props split: option.splits if_splits)
  have isFrozen: "frozen (buildPublicEnv E' ov)" for E' ov
    by (simp add: buildPublicEnv_def)
  have config: "frozen (env (public cfg))
        \<and> (props (env (public cfg)) k = Some x \<longrightarrow> (\<exists>t. x = JStr t))
        \<and> props (env (public cfg)) ''PUBLIC_ASSETS_URL'' = Some (JStr (assetsUrl (public cfg)))
        \<and> props (env (public cfg)) ''PUBLIC_API_URL'' = Some (JStr (apiUrl (public cfg)))
        \<and> props (env (public cfg)) ''PUBLIC_WS_URL'' = Some (JStr (wsUrl (public cfg)))
        \<and> props (env (public cfg)) ''PUBLIC_MAX_UPLOAD_SIZE''
            = Some (JStr (numberToString (maxUploadSize (public cfg))))
        \<and> (k \<notin> {''PUBLIC_ASSETS_URL'', ''PUBLIC_API_URL'', ''PUBLIC_WS_URL'', ''PUBLIC_MAX_UPLOAD_SIZE''}
             \<longrightarrow> props (env (public cfg)) k =
                  (if startsWith k ''PUBLIC_'' then map_option (\<lambda>v. JStr (coerceString v)) (E k)
                   else None))"
    if "buildServerConfig tail root E = Inr cfg"
  proof -
    from buildServerConfig_steps [OF that]
    have e: "env (public cfg) =
        buildPublicEnv E
          [''PUBLIC_ASSETS_URL'' \<mapsto> JStr (assetsUrl (public cfg)),
           ''PUBLIC_API_URL'' \<mapsto> JStr (apiUrl (public cfg)),
           ''PUBLIC_WS_URL'' \<mapsto> JStr (wsUrl (public cfg)),
           ''PUBLIC_MAX_UPLOAD_SIZE'' \<mapsto> JStr (numberToString (maxUploadSize (public cfg)))]"
      by blast
    show ?thesis
      unfolding e using strings isFrozen
      by (auto simp: buildPublicEnv_props coerceString_def)
  qed
  have coerce: "coerceString JUndefined = [] \<and> coerceString JNull = [] \<and> coerceString (JStr s) = s"
    by (simp add: coerceString_def)
  show ?thesis
    using buildPublicEnv_props [of E overrides k] strings [of E overrides] isFrozen [of E overrides]
      config coerce
    by blast
qed

theorem publicEnv_contract_witness:
  "props (buildPublicEnv (townEnv(''PUBLIC_MAX_UPLOAD_SIZE'' \<mapsto> JStr ''99'', ''PUBLIC_FOO'' \<mapsto> JNull))
            [''PUBLIC_MAX_UPLOAD_SIZE'' \<mapsto> JStr ''12'']) ''PUBLIC_MAX_UPLOAD_SIZE'' = Some (JStr ''12'')
   \<and> props (buildPublicEnv (townEnv(''PUBLIC_MAX_UPLOAD_SIZE'' \<mapsto> JStr ''99'', ''PUBLIC_FOO'' \<mapsto> JNull))
            [''PUBLIC_MAX_UPLOAD_SIZE'' \<mapsto> JStr ''12'']) ''PUBLIC_FOO'' = Some (JStr [])
   \<and> props (env (public (townConfig 3000 ''ws://localhost:3000/ws'' townEnv))) ''PUBLIC_MAX_UPLOAD_SIZE''
       = Some (JStr ''12'')
   \<and> maxUploadSize (public (townConfig 3000 ''ws://localhost:3000/ws'' townEnv)) = 12
   \<and> props (env (public (townConfig 3000 ''ws://localhost:3000/ws'' townEnv))) ''WORLD'' = None
   \<and> frozen (env (public (townConfig 3000 ''ws://localhost:3000/ws'' townEnv)))"
proof -
  let ?E = "townEnv(''PUBLIC_MAX_UPLOAD_SIZE'' \<mapsto> JStr ''99'', ''PUBLIC_FOO'' \<mapsto> JNull)"
  let ?ov = "[''PUBLIC_MAX_UPLOAD_SIZE'' \<mapsto> JStr ''12'']"
  let ?cfg = "townConfig 3000 ''ws://localhost:3000/ws'' townEnv"
  have "props (buildPublicEnv ?E ?ov) ''PUBLIC_MAX_UPLOAD_SIZE'' = Some (JStr ''12'')"
    using publicEnv_contract [of ?E ?ov "''PUBLIC_MAX_UPLOAD_SIZE''"] by simp
  moreover have "props (buildPublicEnv ?E ?ov) ''PUBLIC_FOO'' = Some (JStr [])"
    using publicEnv_contract [of ?E ?ov "''PUBLIC_FOO''"] by (simp add: startsWith_def)
  moreover have "props (env (public ?cfg)) ''PUBLIC_MAX_UPLOAD_SIZE'' = Some (JStr ''12'')
      \<and> maxUploadSize (public ?cfg) = 12
      \<and> props (env (public ?cfg)) ''WORLD'' = None \<and> frozen (env (public ?cfg))"
    using publicEnv_contract [of townEnv _ "''WORLD''" _ _ authorityTail "''/srv/app''" ?cfg] town_config
    by (simp add: startsWith_def townConfig_def numberToString_12)
  ultimately show ?thesis
    by blast
qed

section \<open>The accessor and the frozen object\<close>

lemma configHeap_frozen: "frozen (env (public cfg)) \<Longrightarrow> isFrozen (configHeap cfg r)"
  by (cases r) (simp_all add: configHeap_def)

lemma loadModule_Inr:
  assumes "loadModule tail root E = Inr st"
  obtains cfg where "buildServerConfig tail root E = Inr cfg"
    and "st = \<lparr>processEnv = E, objects = configHeap cfg, serverConfigBinding = ConfigRef\<rparr>"
  using assms unfolding loadModule_def by (elim bindE_InrE) auto

lemma loadModule_frozen:
  assumes "loadModule tail root E = Inr st"
  shows "isFrozen (objects st r)"
proof -
  from assms obtain cfg where cfg: "buildServerConfig tail root E = Inr cfg"
    and st: "st = \<lparr>processEnv = E, objects = configHeap cfg, serverConfigBinding = ConfigRef\<rparr>"
    by (rule loadModule_Inr)
  from buildServerConfig_steps [OF cfg] have "frozen (env (public cfg))"
    by (auto simp: buildPublicEnv_def)
  then show ?thesis
    by (simp add: st configHeap_frozen)
qed

lemma perform_frozen:
  assumes "\<And>r. isFrozen (objects st r)"
  shows "objects (snd (perform a st)) = objects st"
    and "serverConfigBinding (snd (perform a st)) = serverConfigBinding st"
  using assms by (cases a; simp)+

lemma performAll_frozen:
  assumes "\<And>r. isFrozen (objects st r)"
  shows "objects (performAll as st) = objects st
    \<and> serverConfigBinding (performAll as st) = serverConfigBinding st"
  using assms
proof (induction as arbitrary: st)
  case Nil
  then show ?case by simp
next
  case (Cons a as)
  have "\<And>r. isFrozen (objects (snd (perform a st)) r)"
    using Cons.prems by (simp add: perform_frozen)
  from Cons.IH [OF this] show ?case
    using Cons.prems by (simp add: perform_frozen)
qed

text \<open>
  C8. Once the module is loaded, every call of \<^verbatim>\<open>getServerConfig\<close> returns the same
  reference, the one bound at load time, whatever calls, changes of the environment and
  writes to the objects came before: the accessor reads the binding and not the
  environment. All seven objects are frozen, so assigning to a property of the
  configuration or of a nested record throws and changes nothing, and a later read of any
  property shows the value it had at load time.
\<close>

theorem getServerConfig_stable:
  "loadModule tail root E = Inr st \<longrightarrow>
     getServerConfig (performAll as st) = getServerConfig st
     \<and> fst (perform CallGetServerConfig (performAll as st)) = Returned (VRef ConfigRef)
     \<and> isFrozen (objects st r)
     \<and> perform (Assign r key x) (performAll as st) = (Thrown TypeError, performAll as st)
     \<and> objects (performAll as st) = objects st
     \<and> getProperty (objects (performAll as st)) r key = getProperty (objects st) r key"
proof
  assume load: "loadModule tail root E = Inr st"
  then have binding: "serverConfigBinding st = ConfigRef"
    by (elim loadModule_Inr) simp
  have same: "objects (performAll as st) = objects st"
    "serverConfigBinding (performAll as st) = serverConfigBinding st"
    using performAll_frozen [of st as] loadModule_frozen [OF load] by simp_all
  show "getServerConfig (performAll as st) = getServerConfig st
     \<and> fst (perform CallGetServerConfig (performAll as st)) = Returned (VRef ConfigRef)
     \<and> isFrozen (objects st r)
     \<and> perform (Assign r key x) (performAll as st) = (Thrown TypeError, performAll as st)
     \<and> objects (performAll as st) = objects st
     \<and> getProperty (objects (performAll as st)) r key = getProperty (objects st) r key"
    using same binding loadModule_frozen [OF load, of r]
    by (simp add: getServerConfig_def)
qed

lemma town_module:
  "loadModule authorityTail ''/srv/app'' townEnv
     = Inr \<lparr>processEnv = townEnv,
            objects = configHeap (townConfig 3000 ''ws://localhost:3000/ws'' townEnv),
            serverConfigBinding = ConfigRef\<rparr>"
  by (simp add: loadModule_def town_config bindE_def)

theorem getServerConfig_stable_witness:
  "getServerConfig
     (performAll [Assign ServerRef ''port'' (VNum 1), SetEnv ''PORT'' ''9'', CallGetServerConfig]
        \<lparr>processEnv = townEnv,
         objects = configHeap (townConfig 3000 ''ws://localhost:3000/ws'' townEnv),
         serverConfigBinding = ConfigRef\<rparr>) = ConfigRef
   \<and> getProperty
       (objects
         (performAll [Assign ServerRef ''port'' (VNum 1), SetEnv ''PORT'' ''9'', CallGetServerConfig]
            \<lparr>processEnv = townEnv,
             objects = configHeap (townConfig 3000 ''ws://localhost:3000/ws'' townEnv),
             serverConfigBinding = ConfigRef\<rparr>))
       ServerRef ''port'' = VNum 3000"
proof -
  let ?st = "\<lparr>processEnv = townEnv,
              objects = configHeap (townConfig 3000 ''ws://localhost:3000/ws'' townEnv),
              serverConfigBinding = ConfigRef\<rparr>"
  let ?as = "[Assign ServerRef ''port'' (VNum 1), SetEnv ''PORT'' ''9'', CallGetServerConfig]"
  have p: "getProperty (objects ?st) ServerRef ''port'' = VNum 3000"
    by (simp add: getProperty_def configHeap_def townConfig_def)
  have g: "getServerConfig ?st = ConfigRef"
    by (simp add: getServerConfig_def)
  have stable: "getServerConfig (performAll ?as ?st) = getServerConfig ?st"
    "getProperty (objects (performAll ?as ?st)) ServerRef ''port''
       = getProperty (objects ?st) ServerRef ''port''"
    using getServerConfig_stable
        [of authorityTail "''/srv/app''" townEnv ?st ?as ServerRef "''port''"]
      town_module
    by blast+
  show ?thesis
    unfolding stable using p g by blast
qed

section \<open>Reading a token\<close>

text \<open>
  C9. For every token, \<^verbatim>\<open>readJWT\<close> resolves with the decoded payload when the verification
  against the configured secret succeeds and resolves with \<^verbatim>\<open>null\<close> when it fails, whatever
  the failure (an expired token, a bad signature, a malformed token); it never rejects.
\<close>

theorem readJWT_never_rejects:
  "readJWT verify cfg token =
     (case verify token (jwtSecret (auth cfg)) of
        Inr data \<Rightarrow> Resolved (Some data)
      | Inl err \<Rightarrow> Resolved None)
   \<and> readJWT verify cfg token \<noteq> Rejected e"
  by (simp add: readJWT_def newPromise_def jwtVerify_def split: sum.splits)

section \<open>Invariants of a configuration\<close>

text \<open>
  The port and the upload size are within their bounds, the save interval is not
  negative, and the secret is a non-empty string.
\<close>

lemma config_bounds:
  assumes "buildServerConfig tail root E = Inr cfg"
  shows "1 \<le> port (server cfg) \<and> port (server cfg) \<le> 65535"
    and "0 \<le> saveInterval (server cfg)"
    and "1 \<le> maxUploadSize (public cfg)"
    and "\<exists>s. jwtSecret (auth cfg) = Some s \<and> s \<noteq> [] \<and> \<not> whitespaceOnly s"
proof -
  from buildServerConfig_steps [OF assms] obtain portValue saveValue uploadValue where
    p: "parseInteger (toStringArg portValue) ''PORT''
          (intDefaults\<lparr>minimum := Some 1, maximum := Some 65535\<rparr>) = Inr (port (server cfg))"
    and s: "parseInteger (toStringArg saveValue) ''SAVE_INTERVAL'' (intDefaults\<lparr>minimum := Some 0\<rparr>)
          = Inr (saveInterval (server cfg))"
    and u: "parseInteger (toStringArg uploadValue) ''PUBLIC_MAX_UPLOAD_SIZE''
          (intDefaults\<lparr>minimum := Some 1\<rparr>) = Inr (maxUploadSize (public cfg))"
    and j: "readEnv E ''JWT_SECRET'' (readDefaults\<lparr>required := True\<rparr>) = Inr (jwtSecret (auth cfg))"
    by blast
  show "1 \<le> port (server cfg) \<and> port (server cfg) \<le> 65535"
    using p by (simp add: parseInteger_Inr intDefaults_def)
  show "0 \<le> saveInterval (server cfg)"
    using s by (simp add: parseInteger_Inr intDefaults_def)
  show "1 \<le> maxUploadSize (public cfg)"
    using u by (simp add: parseInteger_Inr intDefaults_def)
  from j obtain v where v: "jwtSecret (auth cfg) = Some v" and t: "v = trimmedValue E ''JWT_SECRET''"
    and ne: "v \<noteq> []"
    by (auto simp: readEnv_def trimmedValue_def readDefaults_def Let_def
        split: jsvalue.splits if_splits)
  have "\<not> whitespaceOnly v"
    using trim_not_whitespaceOnly [of "case lookupEnv E ''JWT_SECRET'' of JStr raw \<Rightarrow> raw | _ \<Rightarrow> []"]
      t ne
    by (auto simp: trimmedValue_def split: jsvalue.splits)
  with v ne show "\<exists>s. jwtSecret (auth cfg) = Some s \<and> s \<noteq> [] \<and> \<not> whitespaceOnly s"
    by blast
qed

text \<open>
  The world directory lies below the root directory: it is the root followed by the
  plain segments of the world name.
\<close>

lemma world_dir_below_root:
  assumes "segs \<noteq> []" and "list_all isPlainSegment segs"
    and "buildServerConfig tail (absolutePath segs) E = Inr cfg"
  shows "\<exists>plain. list_all isPlainSegment plain
           \<and> (dir (world cfg) = absolutePath (segs @ plain)
                \<or> dir (world cfg) = absolutePath (segs @ plain) @ ''/'')"
proof -
  from buildServerConfig_steps [OF assms(3)] obtain w where
    "ensureRelativePath w ''WORLD'' = Inr (name (world cfg))"
    and "dir (world cfg) = joinPath [absolutePath segs, name (world cfg)]"
    by blast
  then show ?thesis
    using joinPath_below_root [OF assms(1,2)] by simp
qed

end
